theory Spec2Isabelle
  imports Complex_Main
begin

section \<open>Tensors, errors and the numerical library\<close>

text \<open>
  The notebook \<^verbatim>\<open>transformer-checkpoint.ipynb\<close> defines its layers over tensors of a
  numerical library. The embedding works in exact real arithmetic: a tensor element is a
  \<^typ>\<open>real\<close>, so rounding, overflow and underflow of 32-bit floats are outside the model.
  A rank-2 tensor (one batch element, one head) is the list of its rows; a rank-3 tensor
  is a list of such matrices. A tensor with no row has lost its column count in this
  representation. Every layer acts on the elements of a batch independently, so the model
  is of one batch element.

  Every exception the notebook's code can raise is a value of \<open>py_error\<close>; a computation
  that may raise returns \<open>py_error + 'a\<close>, with \<open>Inl\<close> for the exception.
\<close>

type_synonym vec = "real list"
type_synonym matrix = "real list list"

datatype py_error =
    NameError string
  | TypeError
  | AttributeError string
  | ZeroDivisionError
  | ValueError
  | RuntimeError

definition bind_err :: "py_error + 'a \<Rightarrow> ('a \<Rightarrow> py_error + 'b) \<Rightarrow> py_error + 'b" where
  "bind_err m f = (case m of Inl e \<Rightarrow> Inl e | Inr x \<Rightarrow> f x)"

definition dot :: "vec \<Rightarrow> vec \<Rightarrow> real" where
  "dot a b = sum_list (map2 (*) a b)"

definition dim_col :: "'a list list \<Rightarrow> nat" where
  \<comment> \<open>\<^verbatim>\<open>t.shape[-1]\<close> of a rank-2 tensor.\<close>
  "dim_col m = (case m of [] \<Rightarrow> 0 | r # _ \<Rightarrow> length r)"

definition is_mat :: "nat \<Rightarrow> nat \<Rightarrow> 'a list list \<Rightarrow> bool" where
  "is_mat r c m = (length m = r \<and> list_all (\<lambda>row. length row = c) m)"

definition matmul_nt :: "matrix \<Rightarrow> matrix \<Rightarrow> py_error + matrix" where
  \<comment> \<open>\<^verbatim>\<open>a @ b.transpose(-2, -1)\<close>: entry (i, j) is the dot product of row i of a and
      row j of b; the library raises when the row widths differ.\<close>
  "matmul_nt a b =
     (if list_all (\<lambda>x. list_all (\<lambda>y. length x = length y) b) a
      then Inr (map (\<lambda>x. map (\<lambda>y. dot x y) b) a)
      else Inl RuntimeError)"

definition column :: "matrix \<Rightarrow> nat \<Rightarrow> vec" where
  "column b c = map (\<lambda>row. row ! c) b"

definition matmul :: "matrix \<Rightarrow> matrix \<Rightarrow> py_error + matrix" where
  \<comment> \<open>\<^verbatim>\<open>a @ b\<close>: the library raises unless every row of a is as wide as b is high.\<close>
  "matmul a b =
     (if list_all (\<lambda>x. length x = length b) a \<and> list_all (\<lambda>y. length y = dim_col b) b
      then Inr (map (\<lambda>x. map (\<lambda>c. dot x (column b c)) [0..<dim_col b]) a)
      else Inl RuntimeError)"

definition softmax :: "vec \<Rightarrow> vec" where
  \<comment> \<open>\<^verbatim>\<open>softmax(dim=-1)\<close> on one row.\<close>
  "softmax xs = map (\<lambda>x. exp x / sum_list (map exp xs)) xs"

subsection \<open>Dropout\<close>

text \<open>
  \<^verbatim>\<open>nn.Dropout(p)\<close> holds the probability and the module's training flag. In training
  mode each element is zeroed with probability p and the others are scaled by 1 / (1 - p);
  in evaluation mode the layer is the identity. The random draw is an explicit input: a
  field \<open>u\<close> of numbers in [0, 1), one per position, and the element at (i, j) is zeroed
  when \<open>u i j < p\<close>.
\<close>

record dropout =
  p :: real
  training :: bool

type_synonym draw = "nat \<Rightarrow> nat \<Rightarrow> real"

definition Dropout_init :: "real \<Rightarrow> py_error + dropout" where
  \<comment> \<open>The library's constructor refuses a probability outside [0, 1]; a new module is in
      training mode.\<close>
  "Dropout_init q = (if q < 0 \<or> 1 < q then Inl ValueError else Inr \<lparr>p = q, training = True\<rparr>)"

definition dropout_elem :: "dropout \<Rightarrow> real \<Rightarrow> real \<Rightarrow> real" where
  "dropout_elem d u x = (if u < p d then 0 else x / (1 - p d))"

definition dropout_forward :: "dropout \<Rightarrow> draw \<Rightarrow> matrix \<Rightarrow> matrix" where
  "dropout_forward d u m =
     (if training d
      then map (\<lambda>i. map (\<lambda>j. dropout_elem d (u i j) (m ! i ! j)) [0..<length (m ! i)]) [0..<length m]
      else m)"

section \<open>Scaled dot-product attention\<close>

text \<open>
  \<^verbatim>\<open>MultiHeadAttentionBlock.attention(query, key, value, mask, dropout)\<close>, on one
  (batch, head) slice. The mask is an integer tensor compared with 0; a dimension of size
  one is broadcast against the score matrix, any other shape mismatch raises.
\<close>

type_synonym mask = "int list list"

definition broadcast_row :: "nat \<Rightarrow> 'a list \<Rightarrow> py_error + 'a list" where
  "broadcast_row c r =
     (if length r = c then Inr r
      else if length r = 1 then Inr (replicate c (r ! 0))
      else Inl RuntimeError)"

fun sequence_err :: "(py_error + 'a) list \<Rightarrow> py_error + 'a list" where
  "sequence_err [] = Inr []"
| "sequence_err (x # xs) =
     (case x of Inl e \<Rightarrow> Inl e
      | Inr y \<Rightarrow> (case sequence_err xs of Inl e \<Rightarrow> Inl e | Inr ys \<Rightarrow> Inr (y # ys)))"

definition broadcast_to :: "nat \<Rightarrow> nat \<Rightarrow> 'a list list \<Rightarrow> py_error + 'a list list" where
  "broadcast_to r c m =
     (if length m = r then sequence_err (map (broadcast_row c) m)
      else if length m = 1 then bind_err (broadcast_row c (m ! 0)) (\<lambda>row. Inr (replicate r row))
      else Inl RuntimeError)"

definition masked_fill :: "matrix \<Rightarrow> mask \<Rightarrow> real \<Rightarrow> py_error + matrix" where
  \<comment> \<open>\<^verbatim>\<open>scores.masked_fill_(mask == 0, fill)\<close>\<close>
  "masked_fill scores m fill =
     bind_err (broadcast_to (length scores) (dim_col scores) m) (\<lambda>mb.
       Inr (map2 (\<lambda>srow mrow. map2 (\<lambda>s b. if b = 0 then fill else s) srow mrow) scores mb))"

definition scaled_scores :: "matrix \<Rightarrow> matrix \<Rightarrow> py_error + matrix" where
  \<comment> \<open>\<^verbatim>\<open>(query @ key.transpose(-2, -1)) / math.sqrt(d_k)\<close> with \<^verbatim>\<open>d_k = query.shape[-1]\<close>\<close>
  "scaled_scores query key =
     bind_err (matmul_nt query key) (\<lambda>s.
       Inr (map (map (\<lambda>x. x / sqrt (real (dim_col query)))) s))"

definition attention ::
  "matrix \<Rightarrow> matrix \<Rightarrow> matrix \<Rightarrow> mask option \<Rightarrow> dropout option \<Rightarrow> draw \<Rightarrow> py_error + (matrix \<times> matrix)" where
  "attention query key val msk drp u =
     bind_err (scaled_scores query key) (\<lambda>attention_scores.
     bind_err (case msk of None \<Rightarrow> Inr attention_scores
               | Some m \<Rightarrow> masked_fill attention_scores m (- 1000000000)) (\<lambda>attention_scores.
     let attention_scores = map softmax attention_scores;
         attention_scores = (case drp of None \<Rightarrow> attention_scores
                             | Some d \<Rightarrow> dropout_forward d u attention_scores)
     in bind_err (matmul attention_scores val) (\<lambda>x. Inr (x, attention_scores))))"

definition weights_of :: "dropout option \<Rightarrow> draw \<Rightarrow> matrix \<Rightarrow> matrix" where
  \<comment> \<open>The last two steps before the product with the values: the row-wise softmax of
      the (masked) scores, then dropout when a dropout module is given.\<close>
  "weights_of drp u s =
     (case drp of None \<Rightarrow> map softmax s | Some d \<Rightarrow> dropout_forward d u (map softmax s))"

definition dropout_active :: "dropout option \<Rightarrow> bool" where
  "dropout_active drp = (case drp of None \<Rightarrow> False | Some d \<Rightarrow> training d)"

definition causal_mask :: "nat \<Rightarrow> mask" where
  \<comment> \<open>The fully causal mask on a sequence of length L, an input of the attention
      function (the notebook builds no mask): position i may attend to position j only
      when j is not later than i.\<close>
  "causal_mask L = map (\<lambda>i. map (\<lambda>j. if j \<le> i then 1 else 0) [0..<L]) [0..<L]"

section \<open>Layer normalization\<close>

text \<open>
  \<^verbatim>\<open>LayerNormalization\<close> holds epsilon and two learned one-element parameters, the scale
  \<open>alpha\<close> (initially 1) and the shift \<open>bias\<close> (initially 0), which broadcast over every
  element. The forward pass works on the last dimension, that is on each row. The
  library's \<^verbatim>\<open>std\<close> is the unbiased estimate, with N - 1 in the denominator; on a row of
  fewer than two elements the library yields not-a-number, which the model does not
  represent.
\<close>

record layer_norm =
  eps :: real
  alpha :: real
  bias :: real

definition LayerNormalization_init :: "real option \<Rightarrow> layer_norm" where
  \<comment> \<open>\<^verbatim>\<open>__init__(self, eps: float = 10**-6)\<close>\<close>
  "LayerNormalization_init e =
     \<lparr>eps = (case e of None \<Rightarrow> 1 / 1000000 | Some x \<Rightarrow> x), alpha = 1, bias = 0\<rparr>"

definition mean :: "vec \<Rightarrow> real" where
  "mean xs = sum_list xs / real (length xs)"

definition std :: "vec \<Rightarrow> real" where
  "std xs = sqrt (sum_list (map (\<lambda>x. (x - mean xs)\<^sup>2) xs) / (real (length xs) - 1))"

definition layer_norm_row :: "layer_norm \<Rightarrow> vec \<Rightarrow> vec" where
  \<comment> \<open>\<^verbatim>\<open>self.alpha * (x - mean) / (std + self.eps) + self.bias\<close> on one feature vector\<close>
  "layer_norm_row nrm xs =
     map (\<lambda>x. alpha nrm * (x - mean xs) / (std xs + eps nrm) + bias nrm) xs"

definition layer_norm_forward :: "layer_norm \<Rightarrow> matrix \<Rightarrow> matrix" where
  "layer_norm_forward nrm x = map (layer_norm_row nrm) x"

section \<open>Residual connection\<close>

record residual_connection =
  rc_dropout :: dropout
  rc_norm :: layer_norm

definition ResidualConnection_init :: "real \<Rightarrow> py_error + residual_connection" where
  "ResidualConnection_init q =
     bind_err (Dropout_init q) (\<lambda>d. Inr \<lparr>rc_dropout = d, rc_norm = LayerNormalization_init None\<rparr>)"

definition add_tensor :: "matrix \<Rightarrow> matrix \<Rightarrow> py_error + matrix" where
  \<comment> \<open>\<^verbatim>\<open>a + b\<close> on rank-2 tensors: a dimension of size one is broadcast, any other
      difference of shape raises.\<close>
  "add_tensor a b =
     (let r = (if length a = 1 then length b else length a);
          c = (if dim_col a = 1 then dim_col b else dim_col a)
      in bind_err (broadcast_to r c a) (\<lambda>ab.
         bind_err (broadcast_to r c b) (\<lambda>bb.
           Inr (map2 (\<lambda>x y. map2 (+) x y) ab bb))))"

definition residual_forward ::
  "residual_connection \<Rightarrow> matrix \<Rightarrow> (matrix \<Rightarrow> py_error + matrix) \<Rightarrow> draw \<Rightarrow> py_error + matrix" where
  \<comment> \<open>\<^verbatim>\<open>return x + self.dropout(sublayer(self.norm(x)))\<close>\<close>
  "residual_forward rc x sublayer u =
     bind_err (sublayer (layer_norm_forward (rc_norm rc) x)) (\<lambda>y.
       add_tensor x (dropout_forward (rc_dropout rc) u y))"

section \<open>Positional encoding\<close>

text \<open>
  \<^verbatim>\<open>PositionalEncoding.__init__\<close> builds the table \<^verbatim>\<open>pe\<close> and registers it as a buffer of
  the module under the name \<^verbatim>\<open>"pe"\<close>; the module declares no parameter of its own. The
  two strided assignments \<^verbatim>\<open>pe[:, 0::2] = ...\<close> and \<^verbatim>\<open>pe[:, 1::2] = ...\<close> copy a source
  whose column count is the length of \<^verbatim>\<open>div_term\<close>; the library raises unless that
  count is the number of addressed columns or one.
\<close>

record positional_encoding =
  pe_d_model :: int
  pe_seq_len :: int
  pe_dropout :: dropout
  pe :: "matrix list"

definition arange2 :: "nat \<Rightarrow> nat list" where
  \<comment> \<open>\<^verbatim>\<open>torch.arange(0, d_model, 2)\<close>\<close>
  "arange2 d = map (\<lambda>i. 2 * i) [0..<(d + 1) div 2]"

definition div_term :: "int \<Rightarrow> vec" where
  \<comment> \<open>\<^verbatim>\<open>torch.exp(torch.arange(0, d_model, 2).float() * (-math.log(10000.0) / d_model))\<close>\<close>
  "div_term d_model =
     map (\<lambda>k. exp (real k * (- ln 10000 / real_of_int d_model))) (arange2 (nat d_model))"

definition position :: "int \<Rightarrow> vec" where
  \<comment> \<open>\<^verbatim>\<open>torch.arange(0, seq_len, dtype=torch.float)\<close>\<close>
  "position seq_len = map real [0..<nat seq_len]"

definition outer :: "vec \<Rightarrow> vec \<Rightarrow> matrix" where
  \<comment> \<open>\<^verbatim>\<open>position.unsqueeze(1) * div_term\<close>\<close>
  "outer ps ts = map (\<lambda>pos. map (\<lambda>t. pos * t) ts) ps"

definition slots :: "nat \<Rightarrow> nat \<Rightarrow> nat" where
  \<comment> \<open>the number of columns that the slice \<^verbatim>\<open>start::2\<close> addresses among d columns\<close>
  "slots start d = (d + 1 - start) div 2"

definition put_stride :: "nat \<Rightarrow> vec \<Rightarrow> vec \<Rightarrow> vec" where
  "put_stride start row src =
     map (\<lambda>c. if start \<le> c \<and> even (c - start) then src ! ((c - start) div 2) else row ! c)
       [0..<length row]"

definition assign_cols :: "nat \<Rightarrow> nat \<Rightarrow> nat \<Rightarrow> matrix \<Rightarrow> matrix \<Rightarrow> py_error + matrix" where
  \<comment> \<open>\<^verbatim>\<open>dst[:, start::2] = src\<close>, for a destination of d columns and a source of k
      columns with as many rows as the destination\<close>
  "assign_cols start d k dst src =
     (if k = slots start d then Inr (map2 (put_stride start) dst src)
      else if k = 1 then Inr (map2 (\<lambda>row s. put_stride start row (replicate (slots start d) (s ! 0))) dst src)
      else Inl RuntimeError)"

definition PositionalEncoding_init :: "int \<Rightarrow> int \<Rightarrow> real \<Rightarrow> py_error + positional_encoding" where
  "PositionalEncoding_init d_model seq_len q =
     bind_err (Dropout_init q) (\<lambda>drp.
       if seq_len < 0 \<or> d_model < 0 then Inl RuntimeError
       else if d_model = 0 then Inl ZeroDivisionError
       else
         let tbl = replicate (nat seq_len) (replicate (nat d_model) 0);
             angles = outer (position seq_len) (div_term d_model);
             k = length (div_term d_model)
         in bind_err (assign_cols 0 (nat d_model) k tbl (map (map sin) angles)) (\<lambda>tbl.
            bind_err (assign_cols 1 (nat d_model) k tbl (map (map cos) angles)) (\<lambda>tbl.
              Inr \<lparr>pe_d_model = d_model, pe_seq_len = seq_len, pe_dropout = drp, pe = [tbl]\<rparr>)))"

definition named_buffers :: "positional_encoding \<Rightarrow> (string \<times> matrix list) list" where
  \<comment> \<open>\<^verbatim>\<open>self.register_buffer("pe", pe)\<close>\<close>
  "named_buffers m = [(''pe'', pe m)]"

definition named_parameters :: "positional_encoding \<Rightarrow> (string \<times> matrix list) list" where
  \<comment> \<open>the module assigns no \<^verbatim>\<open>nn.Parameter\<close>, and dropout has none\<close>
  "named_parameters m = []"

definition pe_row :: "int \<Rightarrow> real \<Rightarrow> vec" where
  \<comment> \<open>the row of the table for one position, as the two strided assignments leave it\<close>
  "pe_row d_model pos =
     put_stride 1
       (put_stride 0 (replicate (nat d_model) 0) (map sin (map (\<lambda>t. pos * t) (div_term d_model))))
       (map cos (map (\<lambda>t. pos * t) (div_term d_model)))"

section \<open>Multi-head attention\<close>

text \<open>
  \<^verbatim>\<open>nn.Linear(n_in, n_out)\<close> holds a weight of shape (n_out, n_in) and a bias of length
  n_out, and maps each row x to the product of x with the transposed weight, plus the
  bias. Its initial weights are drawn by the library;
  the constructor takes them as an explicit input.
\<close>

record linear =
  in_features :: nat
  out_features :: nat
  weight :: matrix
  lin_bias :: vec

definition Linear_init :: "int \<Rightarrow> int \<Rightarrow> linear \<Rightarrow> py_error + linear" where
  "Linear_init n_in n_out w0 = (if n_in < 0 \<or> n_out < 0 then Inl RuntimeError else Inr w0)"

definition linear_forward :: "linear \<Rightarrow> matrix \<Rightarrow> py_error + matrix" where
  "linear_forward l x =
     (if list_all (\<lambda>r. length r = in_features l) x
      then Inr (map (\<lambda>r. map2 (\<lambda>w b. dot r w + b) (weight l) (lin_bias l)) x)
      else Inl RuntimeError)"

text \<open>
  The attributes of a \<^verbatim>\<open>MultiHeadAttentionBlock\<close>. The attribute \<^verbatim>\<open>attention_scores\<close>
  does not exist until the body of \<^verbatim>\<open>forward\<close> assigns it. On one batch element it holds
  one weight matrix per head.
\<close>

record mha =
  mha_d_model :: int
  mha_h :: int
  mha_d_k :: int
  w_q :: linear
  w_k :: linear
  w_v :: linear
  w_o :: linear
  mha_dropout :: dropout
  attention_scores :: "matrix list option"

text \<open>
  \<^verbatim>\<open>__init__\<close> computes \<^verbatim>\<open>self.d_k = d_mode // h\<close>. The name \<^verbatim>\<open>d_mode\<close> is neither a
  parameter nor a local variable, so it is looked up among the global names when the
  constructor runs; the notebook binds no such name. The first argument of the model is
  that binding: \<open>None\<close> when the name is unbound. The division is the floor division of
  integers, and it raises on a zero divisor.
\<close>

definition MultiHeadAttentionBlock_init ::
  "int option \<Rightarrow> int \<Rightarrow> int \<Rightarrow> real \<Rightarrow> (nat \<Rightarrow> linear) \<Rightarrow> py_error + mha" where
  "MultiHeadAttentionBlock_init d_mode d_model h q w0 =
     (case d_mode of
        None \<Rightarrow> Inl (NameError ''d_mode'')
      | Some dm \<Rightarrow>
          if h = 0 then Inl ZeroDivisionError
          else
            bind_err (Linear_init d_model d_model (w0 0)) (\<lambda>wq.
            bind_err (Linear_init d_model d_model (w0 1)) (\<lambda>wk.
            bind_err (Linear_init d_model d_model (w0 2)) (\<lambda>wv.
            bind_err (Linear_init d_model d_model (w0 3)) (\<lambda>wo.
            bind_err (Dropout_init q) (\<lambda>drp.
              Inr \<lparr>mha_d_model = d_model, mha_h = h, mha_d_k = dm div h,
                   w_q = wq, w_k = wk, w_v = wv, w_o = wo,
                   mha_dropout = drp, attention_scores = None\<rparr>))))))"

definition view_heads :: "int \<Rightarrow> int \<Rightarrow> matrix \<Rightarrow> py_error + matrix list" where
  \<comment> \<open>\<^verbatim>\<open>t.view(t.shape[0], t.shape[1], self.h, self.d_k).transpose(1, 2)\<close> on one batch
      element: head j holds columns j * d_k to (j + 1) * d_k of every row. The view raises
      unless h * d_k is the row width; a dimension given as -1, which the library would
      infer, is not modelled and raises here.\<close>
  "view_heads h dk t =
     (if h < 0 \<or> dk < 0 \<or> \<not> list_all (\<lambda>r. int (length r) = h * dk) t then Inl RuntimeError
      else Inr (map (\<lambda>j. map (\<lambda>r. take (nat dk) (drop (j * nat dk) r)) t) [0..<nat h]))"

definition attention_heads ::
  "matrix list \<Rightarrow> matrix list \<Rightarrow> matrix list \<Rightarrow> mask option \<Rightarrow> dropout option \<Rightarrow> (nat \<Rightarrow> draw)
     \<Rightarrow> py_error + (matrix list \<times> matrix list)" where
  \<comment> \<open>\<^verbatim>\<open>attention\<close> on tensors with a head dimension: every head separately, the mask
      shared by all heads\<close>
  "attention_heads qs ks vs msk drp u =
     bind_err (sequence_err (map (\<lambda>j. attention (qs ! j) (ks ! j) (vs ! j) msk drp (u j)) [0..<length qs]))
       (\<lambda>rs. Inr (map fst rs, map snd rs))"

definition contigous :: "matrix list \<Rightarrow> py_error + matrix" where
  \<comment> \<open>\<^verbatim>\<open>x.contigous(x.shape[0], -1, self.h * self.d_k)\<close>: a tensor has no attribute of this
      name, so the attribute lookup raises\<close>
  "contigous x = Inl (AttributeError ''contigous'')"

definition forward_heads ::
  "mha \<Rightarrow> matrix \<Rightarrow> matrix \<Rightarrow> matrix \<Rightarrow> mask option \<Rightarrow> (nat \<Rightarrow> draw)
     \<Rightarrow> py_error + (matrix list \<times> matrix list)" where
  \<comment> \<open>the right-hand sides of the body of \<^verbatim>\<open>forward\<close> up to the call of \<^verbatim>\<open>attention\<close>\<close>
  "forward_heads self q k v msk u =
     bind_err (linear_forward (w_q self) q) (\<lambda>query.
     bind_err (linear_forward (w_k self) k) (\<lambda>key.
     bind_err (linear_forward (w_v self) v) (\<lambda>val.
     bind_err (view_heads (mha_h self) (mha_d_k self) query) (\<lambda>query.
     bind_err (view_heads (mha_h self) (mha_d_k self) key) (\<lambda>key.
     bind_err (view_heads (mha_h self) (mha_d_k self) val) (\<lambda>val.
       attention_heads query key val msk (Some (mha_dropout self)) u))))))"

text \<open>
  The body of \<^verbatim>\<open>forward\<close>. The function is declared as \<^verbatim>\<open>def forward(q, k, v, mask)\<close>,
  without a parameter \<^verbatim>\<open>self\<close>, so the name \<^verbatim>\<open>self\<close> in its body is a global name as
  well: the first argument is the object bound to it, \<open>None\<close> when it is unbound. The body
  returns the exception or the result, and the object bound to \<^verbatim>\<open>self\<close> afterwards.
\<close>

definition forward_body ::
  "mha option \<Rightarrow> matrix \<Rightarrow> matrix \<Rightarrow> matrix \<Rightarrow> mask option \<Rightarrow> (nat \<Rightarrow> draw)
     \<Rightarrow> (py_error + matrix) \<times> mha option" where
  "forward_body gself q k v msk u =
     (case gself of
        None \<Rightarrow> (Inl (NameError ''self''), None)
      | Some self \<Rightarrow>
          (case forward_heads self q k v msk u of
             Inl e \<Rightarrow> (Inl e, Some self)
           | Inr (x, scores) \<Rightarrow>
               let self = self\<lparr>attention_scores := Some scores\<rparr>
               in (bind_err (contigous (transpose x)) (\<lambda>x. linear_forward (w_o self) x), Some self)))"

text \<open>
  Calling the function. A call through an instance, \<^verbatim>\<open>block(q, k, v, mask)\<close> or
  \<^verbatim>\<open>block.forward(q, k, v, mask)\<close>, passes the instance as the first positional argument;
  a call of the plain function, \<^verbatim>\<open>MultiHeadAttentionBlock.forward(q, k, v, mask)\<close>, passes
  the four arguments only. The interpreter raises when the number of positional arguments
  differs from the number of declared parameters.
\<close>

datatype arg = ArgModule mha | ArgTensor matrix | ArgMask "mask option"

datatype call =
    MethodCall mha matrix matrix matrix "mask option"
  | FunctionCall matrix matrix matrix "mask option"

definition forward_params :: "string list" where
  "forward_params = [''q'', ''k'', ''v'', ''mask'']"

definition bind_positional :: "string list \<Rightarrow> arg list \<Rightarrow> py_error + (string \<times> arg) list" where
  "bind_positional params args =
     (if length args = length params then Inr (zip params args) else Inl TypeError)"

fun call_args :: "call \<Rightarrow> arg list" where
  "call_args (MethodCall blk q k v msk) = [ArgModule blk, ArgTensor q, ArgTensor k, ArgTensor v, ArgMask msk]"
| "call_args (FunctionCall q k v msk) = [ArgTensor q, ArgTensor k, ArgTensor v, ArgMask msk]"

definition forward_call ::
  "mha option \<Rightarrow> call \<Rightarrow> (nat \<Rightarrow> draw) \<Rightarrow> (py_error + matrix) \<times> mha option" where
  "forward_call gself c u =
     (case bind_positional forward_params (call_args c) of
        Inl e \<Rightarrow> (Inl e, gself)
      | Inr env \<Rightarrow>
          (case map snd env of
             [ArgTensor q, ArgTensor k, ArgTensor v, ArgMask msk] \<Rightarrow> forward_body gself q k v msk u
           | _ \<Rightarrow> (Inl TypeError, gself)))"

section \<open>Properties of the tensor operations\<close>

lemma is_mat_nth: "is_mat r c m \<Longrightarrow> i < r \<Longrightarrow> length (m ! i) = c"
  by (simp add: is_mat_def list_all_length)

lemma dot_sum: "length a = n \<Longrightarrow> length b = n \<Longrightarrow> dot a b = (\<Sum>j<n. a ! j * b ! j)"
  by (simp add: dot_def sum_list_sum_nth atLeast0LessThan)

lemma matmul_nt_ok:
  assumes "is_mat n d a" "is_mat m d b"
  shows "matmul_nt a b = Inr (map (\<lambda>x. map (\<lambda>y. dot x y) b) a)"
  using assms by (simp add: matmul_nt_def is_mat_def list_all_length)

lemma matmul_ok:
  assumes "is_mat n m a" "is_mat m (dim_col b) b"
  shows "matmul a b = Inr (map (\<lambda>x. map (\<lambda>c. dot x (column b c)) [0..<dim_col b]) a)"
  using assms by (simp add: matmul_def is_mat_def list_all_length)

lemma matmul_entry:
  assumes "is_mat n m a" "is_mat m (dim_col b) b" "matmul a b = Inr out" "i < n" "c < dim_col b"
  shows "out ! i ! c = (\<Sum>j<m. a ! i ! j * b ! j ! c)"
proof -
  have out: "out = map (\<lambda>x. map (\<lambda>c. dot x (column b c)) [0..<dim_col b]) a"
    using matmul_ok[OF assms(1,2)] assms(3) by simp
  have la: "length a = n" and lb: "length b = m" using assms(1,2) by (simp_all add: is_mat_def)
  have lr: "length (a ! i) = m" using assms(1,4) by (rule is_mat_nth)
  have "out ! i ! c = dot (a ! i) (column b c)"
    using assms(4,5) la by (simp add: out)
  also have "\<dots> = (\<Sum>j<m. a ! i ! j * column b c ! j)"
    by (rule dot_sum) (simp_all add: lr column_def lb)
  also have "\<dots> = (\<Sum>j<m. a ! i ! j * b ! j ! c)"
    by (rule sum.cong) (simp_all add: column_def lb)
  finally show ?thesis .
qed

lemma sum_list_exp_nonneg: "0 \<le> sum_list (map exp (xs::real list))"
  by (rule sum_list_nonneg) auto

lemma sum_list_exp_pos: "xs \<noteq> [] \<Longrightarrow> 0 < sum_list (map exp (xs::real list))"
proof (cases xs)
  case Nil
  assume "xs \<noteq> []"
  with Nil show ?thesis by simp
next
  case (Cons a as)
  have "0 < exp a + sum_list (map exp as)"
    using sum_list_exp_nonneg[of as] by (intro add_pos_nonneg) simp_all
  then show ?thesis by (simp add: Cons)
qed

lemma length_softmax: "length (softmax xs) = length xs"
  by (simp add: softmax_def)

lemma softmax_nth: "j < length xs \<Longrightarrow> softmax xs ! j = exp (xs ! j) / sum_list (map exp xs)"
  by (simp add: softmax_def)

lemma softmax_pos: "j < length xs \<Longrightarrow> 0 < softmax xs ! j"
proof -
  assume j: "j < length xs"
  then have "xs \<noteq> []" by auto
  then show ?thesis using j by (simp add: softmax_nth sum_list_exp_pos)
qed

lemma sum_list_divide: "sum_list (map (\<lambda>x. f x / (c::real)) xs) = sum_list (map f xs) / c"
  by (induction xs) (simp_all add: add_divide_distrib)

lemma softmax_sum: "xs \<noteq> [] \<Longrightarrow> sum_list (softmax xs) = 1"
  using sum_list_exp_pos[of xs] by (simp add: softmax_def sum_list_divide)

lemma exp_le_sum_list: "i < length xs \<Longrightarrow> exp (xs ! i) \<le> sum_list (map exp (xs::real list))"
proof -
  assume i: "i < length xs"
  have "sum_list (map exp xs) = (\<Sum>k<length xs. exp (xs ! k))"
    by (simp add: sum_list_sum_nth atLeast0LessThan)
  moreover have "exp (xs ! i) \<le> (\<Sum>k<length xs. exp (xs ! k))"
    using i by (intro member_le_sum) auto
  ultimately show ?thesis by simp
qed

lemma softmax_le:
  assumes "i < length xs" "j < length xs"
  shows "softmax xs ! j \<le> exp (xs ! j - xs ! i)"
proof -
  have pos: "0 < exp (xs ! i)" by simp
  have "exp (xs ! j) / sum_list (map exp xs) \<le> exp (xs ! j) / exp (xs ! i)"
    using exp_le_sum_list[OF assms(1)] by (intro divide_left_mono) (auto intro: mult_pos_pos less_le_trans[OF pos])
  then show ?thesis using assms(2) by (simp add: softmax_nth exp_diff)
qed

lemma sequence_err_Inr:
  "sequence_err xs = Inr ys \<Longrightarrow> length ys = length xs \<and> (\<forall>i<length xs. xs ! i = Inr (ys ! i))"
proof (induction xs arbitrary: ys)
  case Nil
  then show ?case by simp
next
  case (Cons x xs)
  then show ?case by (auto split: sum.splits simp: nth_Cons split: nat.splits)
qed

lemma sequence_err_all_Inr: "sequence_err (map Inr ys) = Inr ys"
  by (induction ys) simp_all

lemma broadcast_row_length: "broadcast_row c r = Inr r' \<Longrightarrow> length r' = c"
  by (auto simp: broadcast_row_def split: if_splits)

lemma broadcast_to_shape:
  assumes "broadcast_to r c m = Inr mb"
  shows "is_mat r c mb"
proof (cases "length m = r")
  case True
  then have s: "sequence_err (map (broadcast_row c) m) = Inr mb"
    using assms by (simp add: broadcast_to_def)
  from sequence_err_Inr[OF s] have l: "length mb = length m"
    and e: "\<forall>i<length m. broadcast_row c (m ! i) = Inr (mb ! i)" by auto
  show ?thesis unfolding is_mat_def list_all_length
    using l e True broadcast_row_length by auto
next
  case False
  then show ?thesis using assms
    by (auto simp: broadcast_to_def bind_err_def is_mat_def list_all_length broadcast_row_length
             split: if_splits sum.splits)
qed

lemma broadcast_to_same:
  assumes "is_mat r c m"
  shows "broadcast_to r c m = Inr m"
proof -
  have e: "map (broadcast_row c) m = map Inr m"
    using assms by (auto simp: is_mat_def list_all_iff broadcast_row_def)
  have s: "sequence_err (map (broadcast_row c) m) = Inr m"
    by (subst e) (rule sequence_err_all_Inr)
  have "length m = r" using assms by (simp add: is_mat_def)
  then show ?thesis unfolding broadcast_to_def s by simp
qed

lemma is_mat_dim_col: "is_mat r c m \<Longrightarrow> 0 < r \<Longrightarrow> dim_col m = c"
  by (cases m) (auto simp: is_mat_def dim_col_def)

lemma scaled_scores_ok:
  assumes "is_mat n d query" "is_mat m d key"
  shows "scaled_scores query key =
           Inr (map (\<lambda>x. map (\<lambda>y. dot x y / sqrt (real (dim_col query))) key) query)"
  by (simp add: scaled_scores_def matmul_nt_ok[OF assms] bind_err_def comp_def)

lemma scaled_scores_shape:
  assumes "is_mat n d query" "is_mat m d key" "scaled_scores query key = Inr s"
  shows "is_mat n m s"
  using assms(3) assms(1,2) unfolding scaled_scores_ok[OF assms(1,2)]
  by (auto simp: is_mat_def list_all_iff)

lemma scaled_scores_entry:
  assumes "is_mat n d query" "is_mat m d key" "scaled_scores query key = Inr s" "i < n" "j < m"
  shows "s ! i ! j = dot (query ! i) (key ! j) / sqrt (real d)"
proof -
  have "0 < n" using assms(4) by simp
  then have d: "dim_col query = d" using assms(1) by (simp add: is_mat_dim_col)
  have "length query = n" "length key = m" using assms(1,2) by (simp_all add: is_mat_def)
  then show ?thesis
    using assms(3,4,5) unfolding scaled_scores_ok[OF assms(1,2)] d by auto
qed

lemma masked_fill_shape:
  assumes "is_mat n c s" "masked_fill s mk f = Inr s'"
  shows "is_mat n c s'"
proof (cases "n = 0")
  case True
  then have "s = []" using assms(1) by (simp add: is_mat_def)
  then show ?thesis using assms(2) True
    by (auto simp: masked_fill_def bind_err_def is_mat_def split: sum.splits)
next
  case False
  then have dc: "dim_col s = c" using assms(1) by (simp add: is_mat_dim_col)
  have ls: "length s = n" using assms(1) by (simp add: is_mat_def)
  from assms(2) obtain mb where mb: "broadcast_to n c mk = Inr mb"
    and s': "s' = map2 (\<lambda>srow mrow. map2 (\<lambda>s b. if b = 0 then f else s) srow mrow) s mb"
    by (auto simp: masked_fill_def bind_err_def dc ls split: sum.splits)
  have m: "is_mat n c mb" using mb by (rule broadcast_to_shape)
  show ?thesis using assms(1) m unfolding s' is_mat_def list_all_length by auto
qed

lemma masked_fill_entry:
  assumes "is_mat n c s" "is_mat n c mk" "masked_fill s mk f = Inr s'" "i < n" "j < c"
  shows "s' ! i ! j = (if mk ! i ! j = 0 then f else s ! i ! j)"
proof -
  have "0 < n" using assms(4) by simp
  then have dc: "dim_col s = c" using assms(1) by (simp add: is_mat_dim_col)
  have ls: "length s = n" "length mk = n" using assms(1,2) by (simp_all add: is_mat_def)
  have s': "s' = map2 (\<lambda>srow mrow. map2 (\<lambda>s b. if b = 0 then f else s) srow mrow) s mk"
    using assms(3) by (simp add: masked_fill_def bind_err_def dc ls broadcast_to_same[OF assms(2)])
  have "length (s ! i) = c" "length (mk ! i) = c"
    using assms(1,2,4) by (auto dest: is_mat_nth)
  then show ?thesis using assms(4,5) ls by (simp add: s')
qed

lemma masked_fill_total:
  assumes "is_mat n c s" "is_mat n c mk"
  shows "\<exists>s'. masked_fill s mk f = Inr s'"
proof (cases "n = 0")
  case True
  then have "s = []" "mk = []" using assms by (simp_all add: is_mat_def)
  then show ?thesis by (simp add: masked_fill_def bind_err_def broadcast_to_def dim_col_def)
next
  case False
  then have dc: "dim_col s = c" using assms(1) by (simp add: is_mat_dim_col)
  have ls: "length s = n" using assms(1) by (simp add: is_mat_def)
  show ?thesis by (simp add: masked_fill_def bind_err_def dc ls broadcast_to_same[OF assms(2)])
qed

lemma softmax_rows_shape: "is_mat n m s \<Longrightarrow> is_mat n m (map softmax s)"
  by (auto simp: is_mat_def list_all_iff length_softmax)

lemma dropout_forward_shape: "is_mat n m w \<Longrightarrow> is_mat n m (dropout_forward d u w)"
  by (auto simp: is_mat_def list_all_length dropout_forward_def)

lemma dropout_forward_entry:
  "i < length w \<Longrightarrow> j < length (w ! i) \<Longrightarrow>
   dropout_forward d u w ! i ! j = (if training d then dropout_elem d (u i j) (w ! i ! j) else w ! i ! j)"
  by (simp add: dropout_forward_def)

lemma weights_of_shape: "is_mat n m s \<Longrightarrow> is_mat n m (weights_of drp u s)"
  by (auto simp: weights_of_def softmax_rows_shape dropout_forward_shape split: option.splits)

lemma attention_stages:
  assumes "attention query key val msk drp u = Inr (out, w)"
  obtains s s' where "scaled_scores query key = Inr s"
    and "(case msk of None \<Rightarrow> Inr s | Some m \<Rightarrow> masked_fill s m (- 1000000000)) = Inr s'"
    and "w = weights_of drp u s'"
    and "matmul w val = Inr out"
  using assms unfolding attention_def bind_err_def Let_def weights_of_def
  by (auto split: sum.splits)

lemma attention_from_stages:
  assumes "scaled_scores query key = Inr s"
    and "(case msk of None \<Rightarrow> Inr s | Some m \<Rightarrow> masked_fill s m (- 1000000000)) = Inr s'"
    and "matmul (weights_of drp u s') val = Inr out"
  shows "attention query key val msk drp u = Inr (out, weights_of drp u s')"
  using assms unfolding attention_def bind_err_def Let_def weights_of_def
  by (auto split: sum.splits option.splits)

lemma weights_of_inactive: "\<not> dropout_active drp \<Longrightarrow> weights_of drp u s = map softmax s"
  by (auto simp: weights_of_def dropout_active_def dropout_forward_def split: option.splits)

lemma attention_total:
  assumes q: "is_mat n d query" and k: "is_mat m d key" and v: "is_mat m (dim_col val) val"
    and s: "scaled_scores query key = Inr s"
    and s': "(case msk of None \<Rightarrow> Inr s | Some mk \<Rightarrow> masked_fill s mk (- 1000000000)) = Inr s'"
  shows "\<exists>out. attention query key val msk drp u = Inr (out, weights_of drp u s')"
proof -
  have "is_mat n m s" using q k s by (rule scaled_scores_shape)
  then have "is_mat n m s'" using s' by (auto split: option.splits intro: masked_fill_shape)
  then have w: "is_mat n m (weights_of drp u s')" by (rule weights_of_shape)
  obtain out where "matmul (weights_of drp u s') val = Inr out"
    using matmul_ok[OF w v] by blast
  with s s' show ?thesis by (blast intro: attention_from_stages)
qed

section \<open>Claims about scaled dot-product attention\<close>

text \<open>
  Claim C3. For query, key and value tensors of matching per-head feature width \<open>d_k\<close>, the
  attention function computes the score of query position i and key position j as the dot
  product of the two rows divided by the square root of \<open>d_k\<close>; it returns, second, the
  weight matrix and, first, the output whose row i is the sum over the key positions j of
  weight (i, j) times row j of the value tensor. Without a mask the call returns for every
  input of these shapes.
\<close>

theorem attention_scores_and_output:
  assumes q: "is_mat n d_k query" and k: "is_mat m d_k key" and v: "is_mat m (dim_col val) val"
    and d: "0 < d_k"
  shows "\<exists>s. scaled_scores query key = Inr s
           \<and> (\<forall>i<n. \<forall>j<m. s ! i ! j = dot (query ! i) (key ! j) / sqrt (real d_k))
           \<and> (\<exists>out. attention query key val None drp u = Inr (out, weights_of drp u s))
           \<and> (\<forall>out w. attention query key val msk drp u = Inr (out, w) \<longrightarrow>
                 is_mat n m w
                 \<and> (\<forall>i<n. \<forall>c<dim_col val. out ! i ! c = (\<Sum>j<m. w ! i ! j * val ! j ! c)))"
proof -
  obtain s where s: "scaled_scores query key = Inr s"
    using scaled_scores_ok[OF q k] by blast
  have e: "\<forall>i<n. \<forall>j<m. s ! i ! j = dot (query ! i) (key ! j) / sqrt (real d_k)"
    using scaled_scores_entry[OF q k s] by blast
  have t: "\<exists>out. attention query key val None drp u = Inr (out, weights_of drp u s)"
    using attention_total[OF q k v s, of None s drp u] by simp
  have r: "is_mat n m w \<and> (\<forall>i<n. \<forall>c<dim_col val. out ! i ! c = (\<Sum>j<m. w ! i ! j * val ! j ! c))"
    if a: "attention query key val msk drp u = Inr (out, w)" for out w
  proof -
    from a obtain s0 s' where s0: "scaled_scores query key = Inr s0"
      and s': "(case msk of None \<Rightarrow> Inr s0 | Some mk \<Rightarrow> masked_fill s0 mk (- 1000000000)) = Inr s'"
      and w: "w = weights_of drp u s'" and o: "matmul w val = Inr out"
      by (rule attention_stages)
    have "is_mat n m s0" using q k s0 by (rule scaled_scores_shape)
    then have "is_mat n m s'" using s' by (auto split: option.splits intro: masked_fill_shape)
    then have wm: "is_mat n m w" unfolding w by (rule weights_of_shape)
    show ?thesis using wm matmul_entry[OF wm v o] by blast
  qed
  show ?thesis using s e t r by blast
qed

theorem attention_scores_and_output_witness:
  "\<exists>out w. attention [[1]] [[1], [0]] [[2], [3]] None None (\<lambda>i j. 0) = Inr (out, w)
       \<and> is_mat 1 2 w
       \<and> out ! 0 ! 0 = w ! 0 ! 0 * 2 + w ! 0 ! 1 * 3"
proof -
  have q: "is_mat 1 1 [[1::real]]" and k: "is_mat 2 1 [[1::real], [0]]"
    and v: "is_mat 2 (dim_col [[2::real], [3]]) [[2], [3]]"
    by (simp_all add: is_mat_def dim_col_def)
  from attention_scores_and_output[OF q k v, where drp = None and msk = None and u = "\<lambda>i j. 0"]
  obtain s out where a: "attention [[1]] [[1], [0]] [[2], [3]] None None (\<lambda>i j. 0) = Inr (out, weights_of None (\<lambda>i j. 0) s)"
    and r: "\<forall>out w. attention [[1]] [[1], [0]] [[2], [3]] None None (\<lambda>i j. 0) = Inr (out, w) \<longrightarrow>
                 is_mat 1 2 w
                 \<and> (\<forall>i<1. \<forall>c<dim_col [[2::real], [3]]. out ! i ! c = (\<Sum>j<2. w ! i ! j * [[2], [3]] ! j ! c))"
    by auto
  from r a have "is_mat 1 2 (weights_of None (\<lambda>i j. 0) s)"
    and "out ! 0 ! 0 = (\<Sum>j<2. weights_of None (\<lambda>i j. 0) s ! 0 ! j * [[2], [3]] ! j ! 0)"
    by (auto simp: dim_col_def)
  then show ?thesis using a by (auto simp: numeral_2_eq_2)
qed

lemma causal_mask_2: "causal_mask 2 = [[1, 0], [1, 1]]"
  by (simp add: causal_mask_def numeral_2_eq_2)

lemma is_mat_causal: "is_mat L L (causal_mask L)"
  by (simp add: is_mat_def causal_mask_def list_all_iff)

lemma causal_mask_entry: "i < L \<Longrightarrow> j < L \<Longrightarrow> causal_mask L ! i ! j = (if j \<le> i then 1 else 0)"
  by (simp add: causal_mask_def)

text \<open>
  With a dropout module in training mode the returned weights are not the softmax of the
  scores: a single query and key give the softmax weight 1, and the call returns weight 0
  when the draw zeroes that position.
\<close>

theorem attention_no_mask_counterexample:
  "scaled_scores [[0]] [[0]] = Inr [[0]]
   \<and> map softmax [[0]] = [[1]]
   \<and> attention [[0]] [[0]] [[5]] None (Some \<lparr>p = 1/2, training = True\<rparr>) (\<lambda>i j. 0) = Inr ([[0]], [[0]])"
  by (simp add: attention_def scaled_scores_def matmul_nt_def matmul_def bind_err_def dot_def
      dim_col_def softmax_def dropout_forward_def dropout_elem_def column_def Let_def)

text \<open>
  Claim C9, as amended. When the mask argument is None the masking step is skipped: the
  call returns, and the returned weights are the dropout of the plain row-wise softmax of
  the scaled scores over all key positions; they are that softmax itself when the dropout
  argument is None or the dropout module is in evaluation mode. No key position is
  excluded, so every key position may receive positive weight: the softmax weight of key
  position j for query position i is the exponential of their own scaled score divided by
  the sum of the exponentials over all key positions, a quotient that is positive in the
  exact arithmetic of this model (in floating point it can round to zero).
\<close>

theorem attention_no_mask:
  assumes q: "is_mat n d_k query" and k: "is_mat m d_k key" and v: "is_mat m (dim_col val) val"
    and d: "0 < d_k"
  shows "\<exists>s out. scaled_scores query key = Inr s
           \<and> attention query key val None drp u = Inr (out, weights_of drp u s)
           \<and> (\<not> dropout_active drp \<longrightarrow> weights_of drp u s = map softmax s)
           \<and> (\<forall>i<n. \<forall>j<m.
                 map softmax s ! i ! j = exp (s ! i ! j) / (\<Sum>k<m. exp (s ! i ! k))
                 \<and> 0 < map softmax s ! i ! j)"
proof -
  obtain s where s: "scaled_scores query key = Inr s"
    using scaled_scores_ok[OF q k] by blast
  have sm: "is_mat n m s" using q k s by (rule scaled_scores_shape)
  obtain out where a: "attention query key val None drp u = Inr (out, weights_of drp u s)"
    using attention_total[OF q k v s, of None s drp u] by auto
  have ent: "map softmax s ! i ! j = exp (s ! i ! j) / (\<Sum>k<m. exp (s ! i ! k))
               \<and> 0 < map softmax s ! i ! j" if "i < n" "j < m" for i j
  proof -
    have l: "length s = n" "length (s ! i) = m"
      using sm that(1) by (auto simp: is_mat_def list_all_length)
    have "sum_list (map exp (s ! i)) = (\<Sum>k<m. exp (s ! i ! k))"
      by (simp add: sum_list_sum_nth atLeast0LessThan l)
    then have "softmax (s ! i) ! j = exp (s ! i ! j) / (\<Sum>k<m. exp (s ! i ! k))"
      using that(2) l by (simp add: softmax_nth)
    moreover have "0 < softmax (s ! i) ! j" using that(2) l by (simp add: softmax_pos)
    ultimately show ?thesis using that(1) l by simp
  qed
  have ina: "\<not> dropout_active drp \<longrightarrow> weights_of drp u s = map softmax s"
    by (simp add: weights_of_inactive)
  show ?thesis using s a ina ent by blast
qed

theorem attention_no_mask_witness:
  "\<exists>s out. scaled_scores [[1]] [[1], [0]] = Inr s
      \<and> attention [[1]] [[1], [0]] [[2], [3]] None None (\<lambda>i j. 0) = Inr (out, map softmax s)
      \<and> map softmax s ! 0 ! 1 = exp (s ! 0 ! 1) / (\<Sum>k<2. exp (s ! 0 ! k))
      \<and> 0 < map softmax s ! 0 ! 0 \<and> 0 < map softmax s ! 0 ! 1"
proof -
  have q: "is_mat 1 1 [[1::real]]" and k: "is_mat 2 1 [[1::real], [0]]"
    and v: "is_mat 2 (dim_col [[2::real], [3]]) [[2], [3]]"
    and d: "(0::nat) < 1"
    by (simp_all add: is_mat_def dim_col_def)
  from attention_no_mask[OF q k v d, where drp = None and u = "\<lambda>i j. 0"]
  obtain s out where s: "scaled_scores [[1]] [[1], [0]] = Inr s"
    and a: "attention [[1]] [[1], [0]] [[2], [3]] None None (\<lambda>i j. 0)
              = Inr (out, weights_of None (\<lambda>i j. 0) s)"
    and e: "\<forall>i<1. \<forall>j<2.
                 map softmax s ! i ! j = exp (s ! i ! j) / (\<Sum>k<2. exp (s ! i ! k))
                 \<and> 0 < map softmax s ! i ! j"
    by (elim exE conjE)
  have w: "weights_of None (\<lambda>i j. 0) s = map softmax s" by (simp add: weights_of_def)
  have e0: "0 < map softmax s ! 0 ! 0"
    using e[rule_format, of 0 0] by simp
  have e1: "map softmax s ! 0 ! 1 = exp (s ! 0 ! 1) / (\<Sum>k<2. exp (s ! 0 ! k))
              \<and> 0 < map softmax s ! 0 ! 1"
    by (rule e[rule_format, of 0 1]) simp_all
  show ?thesis using s a[unfolded w] e0 e1 by blast
qed

text \<open>
  The weights returned after dropout in training mode are not row-stochastic: with one query
  and one key the softmax weight is 1, and the returned row sums to 0 when the draw zeroes
  the position and to 2 when it is kept and scaled by 1 / (1 - 1/2).
\<close>

theorem attention_row_stochastic_counterexample:
  "attention [[1]] [[1]] [[1]] None (Some \<lparr>p = 1/2, training = True\<rparr>) (\<lambda>i j. 0) = Inr ([[0]], [[0]])
   \<and> sum_list ([[0]] ! 0) = (0::real)
   \<and> attention [[1]] [[1]] [[1]] None (Some \<lparr>p = 1/2, training = True\<rparr>) (\<lambda>i j. 1/2) = Inr ([[2]], [[2]])
   \<and> sum_list ([[2]] ! 0) = (2::real)"
  by (simp add: attention_def scaled_scores_def matmul_nt_def matmul_def bind_err_def dot_def
      dim_col_def softmax_def dropout_forward_def dropout_elem_def column_def Let_def)

lemma dropout_elem_nonneg: "0 \<le> p d \<Longrightarrow> p d \<le> 1 \<Longrightarrow> 0 \<le> x \<Longrightarrow> 0 \<le> dropout_elem d t x"
  by (simp add: dropout_elem_def)

lemma weights_of_nonneg:
  assumes sm: "is_mat n m s" and pr: "\<forall>d. drp = Some d \<longrightarrow> 0 \<le> p d \<and> p d \<le> 1"
    and i: "i < n" and j: "j < m"
  shows "0 \<le> weights_of drp u s ! i ! j"
proof -
  have l: "length s = n" "length (s ! i) = m" using sm i by (auto simp: is_mat_def list_all_length)
  have sp: "0 < map softmax s ! i ! j" using l i j by (simp add: softmax_pos)
  show ?thesis
  proof (cases drp)
    case None
    then show ?thesis using sp by (simp add: weights_of_def)
  next
    case (Some d)
    have e: "dropout_forward d u (map softmax s) ! i ! j =
          (if training d then dropout_elem d (u i j) (map softmax s ! i ! j) else map softmax s ! i ! j)"
      using l i j by (intro dropout_forward_entry) (simp_all add: length_softmax)
    have "0 \<le> dropout_elem d (u i j) (map softmax s ! i ! j)"
      using pr Some sp by (intro dropout_elem_nonneg) auto
    then show ?thesis using sp Some by (simp add: weights_of_def e)
  qed
qed

text \<open>
  Claim C4, as amended. For every mask-free input with at least one key position, the
  returned weights are non-negative (for a dropout probability in [0, 1]), and when the
  dropout argument is None or the dropout module is in evaluation mode each row of the
  returned weight matrix sums to 1.
\<close>

theorem attention_row_stochastic:
  assumes q: "is_mat n d_k query" and k: "is_mat m d_k key" and v: "is_mat m (dim_col val) val"
    and d: "0 < d_k" and m: "0 < m"
    and pr: "\<forall>d. drp = Some d \<longrightarrow> 0 \<le> p d \<and> p d \<le> 1"
  shows "\<exists>out w. attention query key val None drp u = Inr (out, w)
           \<and> (\<forall>i<n. \<forall>j<m. 0 \<le> w ! i ! j)
           \<and> (\<not> dropout_active drp \<longrightarrow> (\<forall>i<n. sum_list (w ! i) = 1))"
proof -
  obtain s where s: "scaled_scores query key = Inr s"
    using scaled_scores_ok[OF q k] by blast
  have sm: "is_mat n m s" using q k s by (rule scaled_scores_shape)
  obtain out where a: "attention query key val None drp u = Inr (out, weights_of drp u s)"
    using attention_total[OF q k v s, of None s drp u] by auto
  have nn: "\<forall>i<n. \<forall>j<m. 0 \<le> weights_of drp u s ! i ! j"
    using weights_of_nonneg[OF sm pr] by blast
  have su: "sum_list (weights_of drp u s ! i) = 1" if na: "\<not> dropout_active drp" and i: "i < n" for i
  proof -
    have l: "length s = n" "length (s ! i) = m" using sm i by (auto simp: is_mat_def list_all_length)
    then have "s ! i \<noteq> []" using m by auto
    then show ?thesis using l i by (simp add: weights_of_inactive[OF na] softmax_sum)
  qed
  show ?thesis using a nn su by blast
qed

theorem attention_row_stochastic_witness:
  "\<exists>out w. attention [[1]] [[1], [0]] [[2], [3]] None (Some \<lparr>p = 1/2, training = False\<rparr>) (\<lambda>i j. 0) = Inr (out, w)
      \<and> 0 \<le> w ! 0 ! 0 \<and> 0 \<le> w ! 0 ! 1 \<and> sum_list (w ! 0) = 1"
proof -
  have q: "is_mat 1 1 [[1::real]]" and k: "is_mat 2 1 [[1::real], [0]]"
    and v: "is_mat 2 (dim_col [[2::real], [3]]) [[2], [3]]"
    by (simp_all add: is_mat_def dim_col_def)
  have n: "\<not> dropout_active (Some \<lparr>p = 1/2, training = False\<rparr>)" by (simp add: dropout_active_def)
  have pr: "\<forall>d. Some \<lparr>p = 1/2, training = False\<rparr> = Some d \<longrightarrow> 0 \<le> p d \<and> p d \<le> 1" by auto
  from attention_row_stochastic[OF q k v _ _ pr, where u = "\<lambda>i j. 0"] n
  show ?thesis by auto
qed

lemma half_less_ratio: "0 < a \<Longrightarrow> a < b \<Longrightarrow> 1 / 2 < b / (a + (b::real))"
proof -
  assume a: "0 < a" "a < b"
  then have "0 < a + b" by simp
  then show ?thesis using a by (simp add: pos_less_divide_eq)
qed

text \<open>
  The sentinel is the finite number -1e9. When the scores of the permitted positions lie
  below it, the forbidden position gets most of the weight: with query rows -1e5 and key
  rows 1e5 (width 1) all scores are -1e10, and under the causal mask of length 2 the
  weight of key position 1 for query position 0 exceeds 1/2.
\<close>

theorem attention_causal_counterexample:
  "causal_mask 2 = [[1, 0], [1, 1]]
   \<and> scaled_scores [[- 100000], [- 100000]] [[100000], [100000]]
       = Inr [[- 10000000000, - 10000000000], [- 10000000000, - 10000000000]]
   \<and> (case attention [[- 100000], [- 100000]] [[100000], [100000]] [[0], [0]]
              (Some (causal_mask 2)) None (\<lambda>i j. 0) of
         Inl e \<Rightarrow> False
       | Inr (out, w) \<Rightarrow> 1/2 < w ! 0 ! 1)"
proof -
  have c: "causal_mask 2 = [[1, 0], [1, 1]]" by (rule causal_mask_2)
  have s: "scaled_scores [[- 100000], [- 100000]] [[100000], [100000]]
       = Inr [[- 10000000000, - 10000000000], [- 10000000000, - 10000000000]]"
    by (simp add: scaled_scores_def matmul_nt_def bind_err_def dot_def dim_col_def)
  have f: "masked_fill [[- 10000000000, - 10000000000], [- 10000000000, - 10000000000]]
             [[1, 0], [1, 1]] (- 1000000000)
           = Inr [[- 10000000000, - 1000000000], [- 10000000000, - 10000000000]]"
    by (simp add: masked_fill_def broadcast_to_def broadcast_row_def bind_err_def dim_col_def)
  have e: "exp (- 10000000000::real) < exp (- 1000000000)" by simp
  have h: "1 / 2 < exp (- 1000000000) / (exp (- 10000000000) + exp (- 1000000000 :: real))"
    using e by (intro half_less_ratio) simp_all
  show ?thesis
    unfolding c
    using h by (simp add: attention_def s f bind_err_def Let_def softmax_def matmul_def column_def dim_col_def)
qed

text \<open>
  Claim C1, as amended. With the fully causal mask on a sequence of length L, and the dropout
  argument None or in evaluation mode, the call returns and for every query position i and
  every later key position j the weight (i, j) is strictly positive and at most
  exp (-1e9 - s), where s is the scaled score of position i with itself: the weight is
  small when that score is well above the sentinel, and it is not zero.
\<close>

theorem attention_causal_bound:
  assumes q: "is_mat L d_k query" and k: "is_mat L d_k key" and v: "is_mat L (dim_col val) val"
    and d: "0 < d_k" and na: "\<not> dropout_active drp"
  shows "\<exists>s out w. scaled_scores query key = Inr s
           \<and> attention query key val (Some (causal_mask L)) drp u = Inr (out, w)
           \<and> (\<forall>i<L. \<forall>j<L. i < j \<longrightarrow>
                 0 < w ! i ! j \<and> w ! i ! j \<le> exp (- 1000000000 - s ! i ! i))"
proof -
  obtain s where s: "scaled_scores query key = Inr s"
    using scaled_scores_ok[OF q k] by blast
  have sm: "is_mat L L s" using q k s by (rule scaled_scores_shape)
  obtain s' where s': "masked_fill s (causal_mask L) (- 1000000000) = Inr s'"
    using masked_fill_total[OF sm is_mat_causal] by blast
  have sm': "is_mat L L s'" using sm s' by (rule masked_fill_shape)
  obtain out where "attention query key val (Some (causal_mask L)) drp u = Inr (out, weights_of drp u s')"
    using attention_total[OF q k v s, of "Some (causal_mask L)" s' drp u] s' by auto
  then have a: "attention query key val (Some (causal_mask L)) drp u = Inr (out, map softmax s')"
    by (simp add: weights_of_inactive[OF na])
  have b: "0 < map softmax s' ! i ! j \<and> map softmax s' ! i ! j \<le> exp (- 1000000000 - s ! i ! i)"
    if i: "i < L" and j: "j < L" and ij: "i < j" for i j
  proof -
    have l: "length s' = L" "length (s' ! i) = L"
      using sm' i by (auto simp: is_mat_def list_all_length)
    have ej: "s' ! i ! j = - 1000000000"
      using masked_fill_entry[OF sm is_mat_causal s' i j] ij i j by (simp add: causal_mask_entry)
    have ei: "s' ! i ! i = s ! i ! i"
      using masked_fill_entry[OF sm is_mat_causal s' i i] i by (simp add: causal_mask_entry)
    have "softmax (s' ! i) ! j \<le> exp (s' ! i ! j - s' ! i ! i)"
      using l i j by (intro softmax_le) simp_all
    moreover have "0 < softmax (s' ! i) ! j" using l j by (simp add: softmax_pos)
    ultimately show ?thesis using l i by (simp add: ej ei)
  qed
  show ?thesis using s a b by blast
qed

theorem attention_causal_bound_witness:
  "\<exists>out w. attention [[1], [2]] [[3], [1]] [[5], [7]] (Some (causal_mask 2)) None (\<lambda>i j. 0) = Inr (out, w)
      \<and> 0 < w ! 0 ! 1 \<and> w ! 0 ! 1 \<le> exp (- 1000000000 - 3)"
proof -
  have q: "is_mat 2 1 [[1::real], [2]]" and k: "is_mat 2 1 [[3::real], [1]]"
    and v: "is_mat 2 (dim_col [[5::real], [7]]) [[5], [7]]"
    by (simp_all add: is_mat_def dim_col_def)
  have n: "\<not> dropout_active None" by (simp add: dropout_active_def)
  have d: "(0::nat) < 1" by simp
  have s: "scaled_scores [[1], [2]] [[3], [1]] = Inr [[3, 1], [6, 2]]"
    by (simp add: scaled_scores_def matmul_nt_def bind_err_def dot_def dim_col_def)
  from attention_causal_bound[OF q k v d n, where u = "\<lambda>i j. 0"]
  obtain s0 out w where s0: "scaled_scores [[1], [2]] [[3], [1]] = Inr s0"
    and a: "attention [[1], [2]] [[3], [1]] [[5], [7]] (Some (causal_mask 2)) None (\<lambda>i j. 0) = Inr (out, w)"
    and b: "\<forall>i<2. \<forall>j<2. i < j \<longrightarrow> 0 < w ! i ! j \<and> w ! i ! j \<le> exp (- 1000000000 - s0 ! i ! i)"
    by blast
  have e: "s0 = [[3, 1], [6, 2]]" using s0 s by simp
  have w01: "0 < w ! 0 ! 1 \<and> w ! 0 ! 1 \<le> exp (- 1000000000 - s0 ! 0 ! 0)"
    by (rule b[rule_format, of 0 1]) simp_all
  have "s0 ! 0 ! 0 = 3" by (simp add: e)
  with w01 have "0 < w ! 0 ! 1 \<and> w ! 0 ! 1 \<le> exp (- 1000000000 - 3)" by (simp only:)
  with a show ?thesis by blast
qed

section \<open>Claims about layer normalization and the residual connection\<close>

lemma sum_list_shift_scale:
  "sum_list (map (\<lambda>x. (x - m) / (c::real)) xs) = (sum_list xs - real (length xs) * m) / c"
  by (induction xs) (simp_all add: diff_divide_distrib add_divide_distrib algebra_simps)

lemma std_nonneg: "2 \<le> length xs \<Longrightarrow> 0 \<le> std xs"
  unfolding std_def by (intro real_sqrt_ge_zero divide_nonneg_nonneg sum_list_nonneg) auto

lemma mean_normalized:
  assumes "xs \<noteq> []"
  shows "mean (map (\<lambda>x. (x - mean xs) / c) xs) = 0"
proof -
  have "sum_list (map (\<lambda>x. (x - mean xs) / c) xs) = (sum_list xs - real (length xs) * mean xs) / c"
    by (rule sum_list_shift_scale)
  also have "\<dots> = 0" using assms by (simp add: mean_def)
  finally show ?thesis by (simp add: mean_def)
qed

lemma sum_list_sq_scale:
  "sum_list (map (\<lambda>x. ((x - m) / (c::real))\<^sup>2) xs) = sum_list (map (\<lambda>x. (x - m)\<^sup>2) xs) / c\<^sup>2"
  by (induction xs) (simp_all add: power_divide add_divide_distrib)

lemma std_normalized:
  assumes "xs \<noteq> []" "0 < c"
  shows "std (map (\<lambda>x. (x - mean xs) / c) xs) = std xs / c"
proof -
  let ?ys = "map (\<lambda>x. (x - mean xs) / c) xs"
  let ?V = "sum_list (map (\<lambda>x. (x - mean xs)\<^sup>2) xs)"
  have m: "mean ?ys = 0" using assms(1) by (rule mean_normalized)
  have "sum_list (map (\<lambda>y. (y - mean ?ys)\<^sup>2) ?ys) = sum_list (map (\<lambda>x. ((x - mean xs) / c)\<^sup>2) xs)"
    by (simp add: m comp_def)
  also have "\<dots> = ?V / c\<^sup>2" by (rule sum_list_sq_scale)
  finally have "std ?ys = sqrt (?V / c\<^sup>2 / (real (length xs) - 1))"
    by (simp add: std_def)
  also have "\<dots> = sqrt (?V / (real (length xs) - 1) / c\<^sup>2)" by (simp add: field_simps)
  also have "\<dots> = sqrt (?V / (real (length xs) - 1)) / sqrt (c\<^sup>2)"
    by (rule real_sqrt_divide)
  also have "sqrt (c\<^sup>2) = c" using assms(2) by simp
  finally show ?thesis by (simp add: std_def)
qed

lemma ratio_close_iff:
  assumes "0 \<le> s" "0 < (e::real)"
  shows "\<bar>s / (s + e) - 1\<bar> \<le> 1 / 10000 \<longleftrightarrow> 9999 * e \<le> s"
proof -
  have p: "0 < s + e" using assms by simp
  have "s / (s + e) - 1 = - (e / (s + e))" using p by (simp add: field_simps)
  then have "\<bar>s / (s + e) - 1\<bar> = e / (s + e)" using assms p by simp
  moreover have "e / (s + e) \<le> 1 / 10000 \<longleftrightarrow> 9999 * e \<le> s"
    using p by (simp add: field_simps)
  ultimately show ?thesis by simp
qed

lemma layer_norm_row_unit:
  "layer_norm_row (nrm\<lparr>alpha := 1, bias := 0\<rparr>) xs = map (\<lambda>x. (x - mean xs) / (std xs + eps nrm)) xs"
  by (simp add: layer_norm_row_def)

text \<open>
  A constant feature vector has standard deviation 0: the normalized vector is all zeros,
  and its standard deviation is 0, not within 1e-4 of 1.
\<close>

theorem layer_norm_constant_counterexample:
  "layer_norm_row (LayerNormalization_init None) [1, 1] = [0, 0]
   \<and> std (layer_norm_row (LayerNormalization_init None) [1, 1]) = 0
   \<and> \<not> \<bar>std (layer_norm_row (LayerNormalization_init None) [1, 1]) - 1\<bar> \<le> 1 / 10000"
proof -
  have m: "mean [1, 1] = 1" by (simp add: mean_def)
  have r: "layer_norm_row (LayerNormalization_init None) [1, 1] = [0, 0]"
    by (simp add: layer_norm_row_def LayerNormalization_init_def m)
  have s: "std [0, 0] = 0" by (simp add: std_def mean_def)
  show ?thesis unfolding r s by simp
qed

text \<open>
  Claim C6, as amended. On a feature vector of at least two elements, with a positive
  epsilon, layer normalization subtracts the mean, divides by the standard deviation plus
  epsilon and applies the scale and the shift. Before scale and shift (scale 1, shift 0) the
  normalized vector has mean 0 and standard deviation std / (std + epsilon), where std is
  the standard deviation of the input vector; this is within 1e-4 of 1 exactly when std is
  at least 9999 times epsilon.
\<close>

theorem layer_norm_normalizes:
  assumes len: "2 \<le> length xs" and e: "0 < eps nrm"
  shows "(\<forall>i<length xs. layer_norm_row nrm xs ! i
              = alpha nrm * (xs ! i - mean xs) / (std xs + eps nrm) + bias nrm)
       \<and> mean (layer_norm_row (nrm\<lparr>alpha := 1, bias := 0\<rparr>) xs) = 0
       \<and> std (layer_norm_row (nrm\<lparr>alpha := 1, bias := 0\<rparr>) xs) = std xs / (std xs + eps nrm)
       \<and> (\<bar>std (layer_norm_row (nrm\<lparr>alpha := 1, bias := 0\<rparr>) xs) - 1\<bar> \<le> 1 / 10000
            \<longleftrightarrow> 9999 * eps nrm \<le> std xs)"
proof -
  have ne: "xs \<noteq> []" using len by auto
  have s0: "0 \<le> std xs" using len by (rule std_nonneg)
  then have c: "0 < std xs + eps nrm" using e by simp
  have a: "\<forall>i<length xs. layer_norm_row nrm xs ! i
              = alpha nrm * (xs ! i - mean xs) / (std xs + eps nrm) + bias nrm"
    by (simp add: layer_norm_row_def)
  have m: "mean (layer_norm_row (nrm\<lparr>alpha := 1, bias := 0\<rparr>) xs) = 0"
    unfolding layer_norm_row_unit using ne by (rule mean_normalized)
  have s: "std (layer_norm_row (nrm\<lparr>alpha := 1, bias := 0\<rparr>) xs) = std xs / (std xs + eps nrm)"
    unfolding layer_norm_row_unit using ne c by (rule std_normalized)
  have t: "\<bar>std (layer_norm_row (nrm\<lparr>alpha := 1, bias := 0\<rparr>) xs) - 1\<bar> \<le> 1 / 10000
            \<longleftrightarrow> 9999 * eps nrm \<le> std xs"
    unfolding s using s0 e by (rule ratio_close_iff)
  show ?thesis using a m s t by blast
qed

theorem layer_norm_normalizes_witness:
  "mean (layer_norm_row (LayerNormalization_init None) [0, 1, 2]) = 0
   \<and> std (layer_norm_row (LayerNormalization_init None) [0, 1, 2]) = 1 / (1 + 1 / 1000000)
   \<and> \<bar>std (layer_norm_row (LayerNormalization_init None) [0, 1, 2]) - 1\<bar> \<le> 1 / 10000"
proof -
  have u: "(LayerNormalization_init None)\<lparr>alpha := 1, bias := 0\<rparr> = LayerNormalization_init None"
    by (simp add: LayerNormalization_init_def)
  have e: "eps (LayerNormalization_init None) = 1 / 1000000"
    by (simp add: LayerNormalization_init_def)
  have m: "mean [0, 1, 2] = 1" by (simp add: mean_def)
  have s: "std [0, 1, 2] = 1" by (simp add: std_def m)
  have len: "2 \<le> length [0, 1, 2::real]" by simp
  have pos: "0 < eps (LayerNormalization_init None)" by (simp add: e)
  from layer_norm_normalizes[OF len pos] show ?thesis
    unfolding u e s by simp
qed

lemma add_tensor_same:
  assumes a: "is_mat n c a" and b: "is_mat n c b"
  shows "add_tensor a b = Inr (map2 (\<lambda>x y. map2 (+) x y) a b)"
proof (cases "n = 0")
  case True
  then have "a = []" "b = []" using a b by (simp_all add: is_mat_def)
  then show ?thesis
    by (simp add: add_tensor_def dim_col_def broadcast_to_def bind_err_def)
next
  case False
  then have dc: "dim_col a = c" "dim_col b = c" using a b by (simp_all add: is_mat_dim_col)
  have l: "length a = n" "length b = n" using a b by (simp_all add: is_mat_def)
  have r: "(if length a = 1 then length b else length a) = n" using l by simp
  have cc: "(if dim_col a = 1 then dim_col b else dim_col a) = c" using dc by simp
  show ?thesis
    unfolding add_tensor_def Let_def r cc broadcast_to_same[OF a] broadcast_to_same[OF b]
    by (simp add: bind_err_def)
qed

lemma add_tensor_entry:
  assumes a: "is_mat n c a" and b: "is_mat n c b" and i: "i < n" and j: "j < c"
  shows "map2 (\<lambda>x y. map2 (+) x y) a b ! i ! j = a ! i ! j + b ! i ! j"
proof -
  have l: "length a = n" "length b = n" using a b by (simp_all add: is_mat_def)
  have "length (a ! i) = c" "length (b ! i) = c" using a b i by (auto dest: is_mat_nth)
  then show ?thesis using i j l by simp
qed

lemma add_tensor_shape:
  assumes a: "is_mat n c a" and b: "is_mat n c b"
  shows "is_mat n c (map2 (\<lambda>x y. map2 (+) x y) a b)"
  using a b unfolding is_mat_def list_all_length by auto

text \<open>
  Claim C8. For every input x and every sublayer function, the residual connection applies
  the sublayer to the normalized input and adds the dropout of the result to the
  unnormalized input, element by element; an exception of the sublayer is the exception of
  the call.
\<close>

theorem residual_forward_prenorm:
  assumes x: "is_mat n c x"
  shows "(\<forall>e. sublayer (layer_norm_forward (rc_norm rc) x) = Inl e \<longrightarrow>
            residual_forward rc x sublayer u = Inl e)
       \<and> (\<forall>y. sublayer (layer_norm_forward (rc_norm rc) x) = Inr y \<and> is_mat n c y \<longrightarrow>
            (\<exists>out. residual_forward rc x sublayer u = Inr out \<and> is_mat n c out
               \<and> (\<forall>i<n. \<forall>j<c. out ! i ! j = x ! i ! j + dropout_forward (rc_dropout rc) u y ! i ! j)))"
proof -
  have 1: "residual_forward rc x sublayer u = Inl e"
    if "sublayer (layer_norm_forward (rc_norm rc) x) = Inl e" for e
    using that by (simp add: residual_forward_def bind_err_def)
  have 2: "\<exists>out. residual_forward rc x sublayer u = Inr out \<and> is_mat n c out
               \<and> (\<forall>i<n. \<forall>j<c. out ! i ! j = x ! i ! j + dropout_forward (rc_dropout rc) u y ! i ! j)"
    if s: "sublayer (layer_norm_forward (rc_norm rc) x) = Inr y" and y: "is_mat n c y" for y
  proof -
    let ?d = "dropout_forward (rc_dropout rc) u y"
    have d: "is_mat n c ?d" using y by (rule dropout_forward_shape)
    have "residual_forward rc x sublayer u = Inr (map2 (\<lambda>x y. map2 (+) x y) x ?d)"
      by (simp add: residual_forward_def s bind_err_def add_tensor_same[OF x d])
    then show ?thesis using add_tensor_shape[OF x d] add_tensor_entry[OF x d] by blast
  qed
  show ?thesis using 1 2 by blast
qed

theorem residual_forward_prenorm_witness:
  "\<exists>out. residual_forward \<lparr>rc_dropout = \<lparr>p = 1/10, training = False\<rparr>, rc_norm = LayerNormalization_init None\<rparr>
            [[0, 1, 2]] (\<lambda>t. Inr (map (map (\<lambda>v. 2 * v)) t)) (\<lambda>i j. 0) = Inr out
       \<and> out ! 0 ! 0 = 0 + 2 * (- 1 / (1 + 1 / 1000000))
       \<and> out ! 0 ! 2 = 2 + 2 * (1 / (1 + 1 / 1000000))"
proof -
  let ?rc = "\<lparr>rc_dropout = \<lparr>p = 1/10, training = False\<rparr>, rc_norm = LayerNormalization_init None\<rparr>"
  let ?f = "\<lambda>t::matrix. (Inr (map (map (\<lambda>v. 2 * v)) t) :: py_error + matrix)"
  have x: "is_mat 1 3 [[0, 1, 2::real]]" by (simp add: is_mat_def)
  have m: "mean [0, 1, 2] = 1" by (simp add: mean_def)
  have s: "std [0, 1, 2] = 1" by (simp add: std_def m)
  have n: "layer_norm_forward (LayerNormalization_init None) [[0, 1, 2]]
             = [[- 1 / (1 + 1 / 1000000), 0, 1 / (1 + 1 / 1000000)]]"
    by (simp add: layer_norm_forward_def layer_norm_row_def LayerNormalization_init_def m s)
  have y: "?f (layer_norm_forward (rc_norm ?rc) [[0, 1, 2]])
             = Inr [[2 * (- 1 / (1 + 1 / 1000000)), 0, 2 * (1 / (1 + 1 / 1000000))]]"
    by (simp add: n)
  have ym: "is_mat 1 3 [[2 * (- 1 / (1 + 1 / 1000000)), 0, 2 * (1 / (1 + 1 / 1000000 :: real))]]"
    by (simp add: is_mat_def)
  have "\<exists>out. residual_forward ?rc [[0, 1, 2]] ?f (\<lambda>i j. 0) = Inr out \<and> is_mat 1 3 out
          \<and> (\<forall>i<1. \<forall>j<3. out ! i ! j = [[0, 1, 2]] ! i ! j
                + dropout_forward (rc_dropout ?rc) (\<lambda>i j. 0) [[2 * (- 1 / (1 + 1 / 1000000)), 0, 2 * (1 / (1 + 1 / 1000000))]] ! i ! j)"
    by (rule residual_forward_prenorm[OF x, where sublayer = ?f and rc = ?rc and u = "\<lambda>i j. 0",
          THEN conjunct2, rule_format, OF conjI[OF y ym]])
  then obtain out where o: "residual_forward ?rc [[0, 1, 2]] ?f (\<lambda>i j. 0) = Inr out"
    and e: "\<forall>i<1. \<forall>j<3. out ! i ! j = [[0, 1, 2]] ! i ! j
              + dropout_forward (rc_dropout ?rc) (\<lambda>i j. 0) [[2 * (- 1 / (1 + 1 / 1000000)), 0, 2 * (1 / (1 + 1 / 1000000))]] ! i ! j"
    by (elim exE conjE)
  have "out ! 0 ! 0 = 0 + 2 * (- 1 / (1 + 1 / 1000000))"
    using e[rule_format, of 0 0] by (simp add: dropout_forward_def)
  moreover have "out ! 0 ! 2 = 2 + 2 * (1 / (1 + 1 / 1000000))"
    using e[rule_format, of 0 2] by (simp add: dropout_forward_def)
  ultimately show ?thesis using o by blast
qed

section \<open>Claims about the positional encoding\<close>

lemma map2_replicate_left:
  "map2 g (replicate (length xs) z) (map f xs) = map (\<lambda>x. g z (f x)) xs"
  by (induction xs) simp_all

lemma map2_map_map: "map2 g (map h xs) (map f xs) = map (\<lambda>x. g (h x) (f x)) xs"
  by (induction xs) simp_all

lemma put_stride_nth:
  "c < length row \<Longrightarrow>
   put_stride start row src ! c =
     (if start \<le> c \<and> even (c - start) then src ! ((c - start) div 2) else row ! c)"
  by (simp add: put_stride_def del: even_diff_nat)

lemma length_put_stride: "length (put_stride start row src) = length row"
  by (simp add: put_stride_def)

lemma length_div_term: "length (div_term d_model) = (nat d_model + 1) div 2"
  by (simp add: div_term_def arange2_def)

lemma div_term_nth:
  assumes "0 < d_model" "2 * i < nat d_model"
  shows "real pos * (div_term d_model ! i)
           = real pos / 10000 powr (real (2 * i) / real_of_int d_model)"
proof -
  have i: "i < (nat d_model + 1) div 2" using assms(2) by linarith
  have "div_term d_model ! i = exp (real (2 * i) * (- ln 10000 / real_of_int d_model))"
    using i by (simp add: div_term_def arange2_def)
  also have "\<dots> = exp (- (real (2 * i) / real_of_int d_model * ln 10000))"
    by (simp add: field_simps)
  also have "\<dots> = inverse (10000 powr (real (2 * i) / real_of_int d_model))"
    by (simp add: powr_def exp_minus)
  finally show ?thesis by (simp add: divide_inverse)
qed

lemma positional_init_even:
  assumes "0 \<le> seq_len" "0 < d_model" "even d_model" "0 \<le> q" "q \<le> 1"
  shows "PositionalEncoding_init d_model seq_len q =
           Inr \<lparr>pe_d_model = d_model, pe_seq_len = seq_len, pe_dropout = \<lparr>p = q, training = True\<rparr>,
                pe = [map (pe_row d_model) (position seq_len)]\<rparr>"
proof -
  have ev: "even (nat d_model)" using assms(2,3) by (simp add: even_nat_iff)
  have k0: "length (div_term d_model) = slots 0 (nat d_model)"
    by (simp add: length_div_term slots_def)
  have k1: "length (div_term d_model) = slots 1 (nat d_model)"
    using ev by (auto simp: length_div_term slots_def elim!: evenE)
  have n: "replicate (nat seq_len) (replicate (nat d_model) (0::real))
             = replicate (length (position seq_len)) (replicate (nat d_model) 0)"
    by (simp add: position_def)
  have a0: "assign_cols 0 (nat d_model) (length (div_term d_model))
              (replicate (nat seq_len) (replicate (nat d_model) 0))
              (map (map sin) (outer (position seq_len) (div_term d_model)))
            = Inr (map (\<lambda>pos. put_stride 0 (replicate (nat d_model) 0)
                       (map sin (map (\<lambda>t. pos * t) (div_term d_model)))) (position seq_len))"
    unfolding assign_cols_def outer_def n using k0
    by (simp add: map2_replicate_left comp_def)
  have a1: "assign_cols (Suc 0) (nat d_model) (length (div_term d_model))
              (map h (position seq_len))
              (map (map cos) (outer (position seq_len) (div_term d_model)))
            = Inr (map (\<lambda>pos. put_stride (Suc 0) (h pos)
                         (map cos (map (\<lambda>t. pos * t) (div_term d_model)))) (position seq_len))" for h
  proof -
    have "map (map cos) (outer (position seq_len) (div_term d_model))
            = map (\<lambda>pos. map cos (map (\<lambda>t. pos * t) (div_term d_model))) (position seq_len)"
      by (simp add: outer_def)
    then show ?thesis
      unfolding assign_cols_def using k1 by (simp add: map2_map_map)
  qed
  show ?thesis
    using assms
    by (simp add: PositionalEncoding_init_def Dropout_init_def bind_err_def Let_def a0 a1 pe_row_def)
qed

lemma put_stride_short:
  "length row \<le> 1 \<Longrightarrow> put_stride (Suc 0) row src = put_stride (Suc 0) row src'"
  by (cases row) (simp_all add: put_stride_def)

lemma positional_init_one:
  assumes "0 \<le> seq_len" "0 \<le> q" "q \<le> 1" and d1: "d_model = 1"
  shows "PositionalEncoding_init d_model seq_len q =
           Inr \<lparr>pe_d_model = d_model, pe_seq_len = seq_len, pe_dropout = \<lparr>p = q, training = True\<rparr>,
                pe = [map (pe_row d_model) (position seq_len)]\<rparr>"
proof -
  have dpos: "0 < d_model" using d1 by simp
  have nd: "nat d_model = 1" using d1 by simp
  have k: "length (div_term d_model) = 1" by (simp add: length_div_term nd)
  have s0: "slots 0 (nat d_model) = 1" and s1: "slots (Suc 0) (nat d_model) = 0"
    by (simp_all add: slots_def nd)
  have n: "replicate (nat seq_len) (replicate (nat d_model) (0::real))
             = replicate (length (position seq_len)) (replicate (nat d_model) 0)"
    by (simp add: position_def)
  have a0: "assign_cols 0 (nat d_model) (length (div_term d_model))
              (replicate (nat seq_len) (replicate (nat d_model) 0))
              (map (map sin) (outer (position seq_len) (div_term d_model)))
            = Inr (map (\<lambda>pos. put_stride 0 (replicate (nat d_model) 0)
                       (map sin (map (\<lambda>t. pos * t) (div_term d_model)))) (position seq_len))"
    unfolding assign_cols_def outer_def n k s0
    by (simp add: map2_replicate_left comp_def)
  have r: "put_stride (Suc 0) (put_stride 0 (replicate (nat d_model) 0) src0) []
             = put_stride (Suc 0) (put_stride 0 (replicate (nat d_model) 0) src0) src1"
    for src0 src1 :: vec
    by (rule put_stride_short) (simp add: length_put_stride nd)
  have a1: "assign_cols (Suc 0) (nat d_model) (length (div_term d_model))
              (map (\<lambda>pos. put_stride 0 (replicate (nat d_model) 0) (h pos)) (position seq_len))
              (map (map cos) (outer (position seq_len) (div_term d_model)))
            = Inr (map (\<lambda>pos. put_stride (Suc 0) (put_stride 0 (replicate (nat d_model) 0) (h pos))
                         (map cos (map (\<lambda>t. pos * t) (div_term d_model)))) (position seq_len))" for h
  proof -
    have "map (map cos) (outer (position seq_len) (div_term d_model))
            = map (\<lambda>pos. map cos (map (\<lambda>t. pos * t) (div_term d_model))) (position seq_len)"
      by (simp add: outer_def)
    then show ?thesis
      unfolding assign_cols_def k s1 by (auto simp: map2_map_map intro!: r)
  qed
  show ?thesis
    using assms(1-3) dpos
    by (simp add: PositionalEncoding_init_def Dropout_init_def bind_err_def Let_def a0 a1 pe_row_def)
qed

lemma positional_init_odd_fails:
  assumes "odd d_model" "3 \<le> d_model"
  shows "\<exists>e. PositionalEncoding_init d_model seq_len q = Inl e"
proof -
  obtain j where j: "nat d_model = 2 * j + 1" using assms by (metis even_nat_iff oddE zero_le_numeral order_trans)
  have j1: "1 \<le> j" using assms(2) j by linarith
  have k: "length (div_term d_model) = j + 1" by (simp add: length_div_term j)
  have s0: "slots 0 (nat d_model) = j + 1" and s1: "slots (Suc 0) (nat d_model) = j"
    by (simp_all add: slots_def j)
  have a1: "assign_cols (Suc 0) (nat d_model) (length (div_term d_model)) dst src = Inl RuntimeError"
    for dst src
    unfolding assign_cols_def k s1 using j1 by simp
  show ?thesis
    by (auto simp: PositionalEncoding_init_def bind_err_def Let_def a1 split: sum.splits)
qed

lemma positional_init_success:
  assumes "PositionalEncoding_init d_model seq_len q = Inr m"
  shows "0 \<le> seq_len \<and> 0 < d_model \<and> (even d_model \<or> d_model = 1)
       \<and> m = \<lparr>pe_d_model = d_model, pe_seq_len = seq_len, pe_dropout = \<lparr>p = q, training = True\<rparr>,
                pe = [map (pe_row d_model) (position seq_len)]\<rparr>"
proof -
  have q: "0 \<le> q \<and> q \<le> 1"
    using assms by (auto simp: PositionalEncoding_init_def Dropout_init_def bind_err_def split: if_splits)
  have s: "0 \<le> seq_len" and d: "0 < d_model"
    using assms q by (auto simp: PositionalEncoding_init_def Dropout_init_def bind_err_def split: if_splits)
  have e: "even d_model \<or> d_model = 1"
  proof (rule ccontr)
    assume "\<not> (even d_model \<or> d_model = 1)"
    then have "odd d_model" "3 \<le> d_model" using d by presburger+
    from positional_init_odd_fails[OF this, of seq_len q] assms show False by auto
  qed
  from e show ?thesis
  proof
    assume "even d_model"
    from positional_init_even[OF s d this] q assms s d e show ?thesis by simp
  next
    assume "d_model = 1"
    from positional_init_one[OF s _ _ this, of q] q assms s d e show ?thesis by simp
  qed
qed

lemma pe_row_length: "length (pe_row d_model pos) = nat d_model"
  by (simp add: pe_row_def length_put_stride)

lemma pe_row_even:
  assumes "2 * i < nat d_model"
  shows "pe_row d_model pos ! (2 * i) = sin (pos * div_term d_model ! i)"
proof -
  have i: "i < length (div_term d_model)" using assms by (simp add: length_div_term)
  have "pe_row d_model pos ! (2 * i)
          = put_stride 0 (replicate (nat d_model) 0) (map sin (map (\<lambda>t. pos * t) (div_term d_model))) ! (2 * i)"
    unfolding pe_row_def using assms by (subst put_stride_nth) (auto simp: length_put_stride)
  also have "\<dots> = map sin (map (\<lambda>t. pos * t) (div_term d_model)) ! i"
    using assms by (subst put_stride_nth) auto
  finally show ?thesis using i by simp
qed

lemma pe_row_odd:
  assumes "2 * i + 1 < nat d_model"
  shows "pe_row d_model pos ! (2 * i + 1) = cos (pos * div_term d_model ! i)"
proof -
  have i: "i < length (div_term d_model)" using assms by (simp add: length_div_term)
  have "pe_row d_model pos ! (2 * i + 1) = map cos (map (\<lambda>t. pos * t) (div_term d_model)) ! i"
    unfolding pe_row_def using assms by (subst put_stride_nth) (auto simp: length_put_stride)
  then show ?thesis using i by simp
qed

text \<open>
  Claim C7. The table that the constructor precomputes has shape (sequence length, model
  width) and holds, for every position pos and pair index i, sin (pos / 10000^(2i / d_model))
  at the even feature index 2i and cos (pos / 10000^(2i / d_model)) at the odd feature index
  2i + 1; it is stored as a buffer of the module, which has no learned parameter. The
  constructor returns for every even positive model width.
\<close>

theorem positional_encoding_table:
  "(0 \<le> seq_len \<and> 0 < d_model \<and> even d_model \<and> 0 \<le> q \<and> q \<le> 1 \<longrightarrow>
      (\<exists>m. PositionalEncoding_init d_model seq_len q = Inr m))
   \<and> (\<forall>m. PositionalEncoding_init d_model seq_len q = Inr m \<longrightarrow>
        (\<exists>tbl. pe m = [tbl] \<and> is_mat (nat seq_len) (nat d_model) tbl
           \<and> (\<forall>pos<nat seq_len. \<forall>i.
                (2 * i < nat d_model \<longrightarrow>
                   tbl ! pos ! (2 * i) = sin (real pos / 10000 powr (real (2 * i) / real_of_int d_model)))
              \<and> (2 * i + 1 < nat d_model \<longrightarrow>
                   tbl ! pos ! (2 * i + 1) = cos (real pos / 10000 powr (real (2 * i) / real_of_int d_model)))))
        \<and> named_buffers m = [(''pe'', pe m)] \<and> named_parameters m = [])"
proof -
  have tot: "\<exists>m. PositionalEncoding_init d_model seq_len q = Inr m"
    if "0 \<le> seq_len \<and> 0 < d_model \<and> even d_model \<and> 0 \<le> q \<and> q \<le> 1"
    using that positional_init_even[of seq_len d_model q] by blast
  have res: "(\<exists>tbl. pe m = [tbl] \<and> is_mat (nat seq_len) (nat d_model) tbl
           \<and> (\<forall>pos<nat seq_len. \<forall>i.
                (2 * i < nat d_model \<longrightarrow>
                   tbl ! pos ! (2 * i) = sin (real pos / 10000 powr (real (2 * i) / real_of_int d_model)))
              \<and> (2 * i + 1 < nat d_model \<longrightarrow>
                   tbl ! pos ! (2 * i + 1) = cos (real pos / 10000 powr (real (2 * i) / real_of_int d_model)))))
        \<and> named_buffers m = [(''pe'', pe m)] \<and> named_parameters m = []"
    if ok: "PositionalEncoding_init d_model seq_len q = Inr m" for m
  proof -
    let ?tbl = "map (pe_row d_model) (position seq_len)"
    from positional_init_success[OF ok] have d: "0 < d_model" and pm: "pe m = [?tbl]" by simp_all
    have shape: "is_mat (nat seq_len) (nat d_model) ?tbl"
      by (simp add: is_mat_def list_all_iff pe_row_length position_def)
    have row: "?tbl ! pos = pe_row d_model (real pos)" if "pos < nat seq_len" for pos
      using that by (simp add: position_def)
    have ev: "?tbl ! pos ! (2 * i) = sin (real pos / 10000 powr (real (2 * i) / real_of_int d_model))"
      if "pos < nat seq_len" "2 * i < nat d_model" for pos i
      using that by (simp only: row pe_row_even div_term_nth[OF d])
    have od: "?tbl ! pos ! (2 * i + 1) = cos (real pos / 10000 powr (real (2 * i) / real_of_int d_model))"
      if "pos < nat seq_len" "2 * i + 1 < nat d_model" for pos i
    proof -
      have "2 * i < nat d_model" using that(2) by simp
      then show ?thesis using that by (simp only: row pe_row_odd div_term_nth[OF d])
    qed
    have "\<exists>tbl. pe m = [tbl] \<and> is_mat (nat seq_len) (nat d_model) tbl
           \<and> (\<forall>pos<nat seq_len. \<forall>i.
                (2 * i < nat d_model \<longrightarrow>
                   tbl ! pos ! (2 * i) = sin (real pos / 10000 powr (real (2 * i) / real_of_int d_model)))
              \<and> (2 * i + 1 < nat d_model \<longrightarrow>
                   tbl ! pos ! (2 * i + 1) = cos (real pos / 10000 powr (real (2 * i) / real_of_int d_model))))"
      using pm shape ev od by blast
    then show ?thesis by (simp add: named_buffers_def named_parameters_def)
  qed
  show ?thesis using tot res by blast
qed

theorem positional_encoding_table_witness:
  "\<exists>m tbl. PositionalEncoding_init 4 3 (1/10) = Inr m \<and> pe m = [tbl] \<and> is_mat 3 4 tbl
      \<and> tbl ! 2 ! 2 = sin (2 / 10000 powr (2 / 4))
      \<and> tbl ! 2 ! 3 = cos (2 / 10000 powr (2 / 4))
      \<and> named_parameters m = []"
proof -
  note t = positional_encoding_table[of 3 4 "1/10"]
  from t obtain m where m: "PositionalEncoding_init 4 3 (1/10) = Inr m" by auto
  from t[THEN conjunct2, rule_format, OF m]
  obtain tbl where p: "pe m = [tbl]" and s: "is_mat (nat 3) (nat 4) tbl"
    and e: "\<forall>pos<nat 3. \<forall>i.
                (2 * i < nat 4 \<longrightarrow>
                   tbl ! pos ! (2 * i) = sin (real pos / 10000 powr (real (2 * i) / real_of_int 4)))
              \<and> (2 * i + 1 < nat 4 \<longrightarrow>
                   tbl ! pos ! (2 * i + 1) = cos (real pos / 10000 powr (real (2 * i) / real_of_int 4)))"
    and np: "named_parameters m = []"
    by (elim exE conjE)
  have "tbl ! 2 ! 2 = sin (2 / 10000 powr (2 / 4))"
    using e[rule_format, of 2 1, THEN conjunct1] by simp
  moreover have "tbl ! 2 ! 3 = cos (2 / 10000 powr (2 / 4))"
    using e[rule_format, of 2 1, THEN conjunct2] by simp
  moreover have "is_mat 3 4 tbl" using s by simp
  ultimately show ?thesis using m p np by blast
qed

section \<open>Claims about multi-head attention\<close>

text \<open>
  The constructor checks nothing about divisibility. With the name \<^verbatim>\<open>d_mode\<close> bound to 10,
  the construction with model width 10 and 3 heads succeeds and stores the truncated width
  3 per head. With the name unbound, as in the notebook, the construction raises
  \<^verbatim>\<open>NameError\<close>, and it raises the same for the divisible configuration 512 and 8.
\<close>

theorem mha_init_counterexample:
  "MultiHeadAttentionBlock_init (Some 10) 10 3 (1/10)
       (\<lambda>i. \<lparr>in_features = 10, out_features = 10, weight = replicate 10 (replicate 10 0),
              lin_bias = replicate 10 0\<rparr>)
     = Inr \<lparr>mha_d_model = 10, mha_h = 3, mha_d_k = 3,
            w_q = \<lparr>in_features = 10, out_features = 10, weight = replicate 10 (replicate 10 0),
                   lin_bias = replicate 10 0\<rparr>,
            w_k = \<lparr>in_features = 10, out_features = 10, weight = replicate 10 (replicate 10 0),
                   lin_bias = replicate 10 0\<rparr>,
            w_v = \<lparr>in_features = 10, out_features = 10, weight = replicate 10 (replicate 10 0),
                   lin_bias = replicate 10 0\<rparr>,
            w_o = \<lparr>in_features = 10, out_features = 10, weight = replicate 10 (replicate 10 0),
                   lin_bias = replicate 10 0\<rparr>,
            mha_dropout = \<lparr>p = 1/10, training = True\<rparr>, attention_scores = None\<rparr>
   \<and> MultiHeadAttentionBlock_init None 10 3 (1/10)
       (\<lambda>i. \<lparr>in_features = 10, out_features = 10, weight = replicate 10 (replicate 10 0),
              lin_bias = replicate 10 0\<rparr>)
     = Inl (NameError ''d_mode'')
   \<and> MultiHeadAttentionBlock_init None 512 8 (1/10)
       (\<lambda>i. \<lparr>in_features = 512, out_features = 512, weight = replicate 512 (replicate 512 0),
              lin_bias = replicate 512 0\<rparr>)
     = Inl (NameError ''d_mode'')"
  by (simp add: MultiHeadAttentionBlock_init_def Linear_init_def Dropout_init_def bind_err_def)

text \<open>
  Claim C2, as amended. The constructor makes no divisibility check: whenever it returns a
  block, the head count is not zero and the per-head width is the floor quotient, by the
  head count, of the width it reads, whatever the remainder; and it does return a block
  whenever that width is bound, the head count is not zero, the model width is not negative
  and the dropout probability lies in [0, 1].
\<close>

theorem mha_init_floor_division:
  "(\<forall>blk. MultiHeadAttentionBlock_init d_mode d_model h q w0 = Inr blk \<longrightarrow>
      (\<exists>dm. d_mode = Some dm \<and> h \<noteq> 0 \<and> mha_d_k blk = dm div h
            \<and> mha_h blk = h \<and> mha_d_model blk = d_model))
   \<and> (\<forall>dm. d_mode = Some dm \<and> h \<noteq> 0 \<and> 0 \<le> d_model \<and> 0 \<le> q \<and> q \<le> 1 \<longrightarrow>
      (\<exists>blk. MultiHeadAttentionBlock_init d_mode d_model h q w0 = Inr blk))"
  by (auto simp: MultiHeadAttentionBlock_init_def Linear_init_def Dropout_init_def bind_err_def
      split: option.splits if_splits)

theorem mha_init_floor_division_witness:
  "\<exists>blk. MultiHeadAttentionBlock_init (Some 10) 10 3 (1/10)
       (\<lambda>i. \<lparr>in_features = 10, out_features = 10, weight = replicate 10 (replicate 10 0),
              lin_bias = replicate 10 0\<rparr>) = Inr blk
     \<and> mha_d_k blk = 3 \<and> mha_h blk = 3 \<and> mha_d_k blk * mha_h blk = 9"
proof -
  let ?w0 = "\<lambda>i::nat. \<lparr>in_features = 10, out_features = 10, weight = replicate 10 (replicate 10 (0::real)),
              lin_bias = replicate 10 (0::real)\<rparr>"
  note t = mha_init_floor_division[of "Some 10" 10 3 "1/10" ?w0]
  from t[THEN conjunct2, rule_format, of 10]
  obtain blk where b: "MultiHeadAttentionBlock_init (Some 10) 10 3 (1/10) ?w0 = Inr blk" by auto
  from t[THEN conjunct1, rule_format, OF b]
  have "mha_d_k blk = 3" "mha_h blk = 3" by auto
  then show ?thesis using b by auto
qed

lemma forward_function_call:
  "forward_call gself (FunctionCall q k v msk) u = forward_body gself q k v msk u"
  by (simp add: forward_call_def bind_positional_def forward_params_def)

text \<open>
  Claim C10 says that every call of \<^verbatim>\<open>forward\<close> stores the weight matrix of the inner
  attention computation in \<^verbatim>\<open>attention_scores\<close>. A call through an instance passes five
  positional arguments to a function that declares four parameters: it raises
  \<^verbatim>\<open>TypeError\<close> before any statement of the body runs, and no attribute is assigned.
\<close>

theorem forward_method_call_raises:
  "forward_call gself (MethodCall blk q k v msk) u = (Inl TypeError, gself)"
  by (simp add: forward_call_def bind_positional_def forward_params_def)

lemma forward_body_stores:
  assumes "forward_heads self q k v msk u = Inr (x, scores)"
  shows "forward_body (Some self) q k v msk u
           = (Inl (AttributeError ''contigous''), Some (self\<lparr>attention_scores := Some scores\<rparr>))"
  using assms by (simp add: forward_body_def contigous_def bind_err_def Let_def)

lemma forward_body_fails:
  assumes "forward_heads self q k v msk u = Inl e"
  shows "forward_body (Some self) q k v msk u = (Inl e, Some self)"
  using assms by (simp add: forward_body_def)

lemma view_heads_single:
  assumes "0 \<le> dk" "list_all (\<lambda>r. int (length r) = dk) t"
  shows "view_heads 1 dk t = Inr [t]"
proof -
  have "map (\<lambda>r. take (nat dk) (drop (0 * nat dk) r)) t = t"
    using assms(2) by (induction t) auto
  then show ?thesis using assms by (simp add: view_heads_def)
qed

lemma attention_heads_single:
  "attention_heads [query] [key] [val] msk drp u =
     (case attention query key val msk drp (u 0) of
        Inl e \<Rightarrow> Inl e | Inr (x, w) \<Rightarrow> Inr ([x], [w]))"
  by (simp add: attention_heads_def bind_err_def split: sum.splits prod.splits)

lemma exp_ratio_not_half: "exp 1 / (exp 1 + 1) \<noteq> (1 / 2 :: real)"
proof
  assume a: "exp 1 / (exp 1 + 1) = (1 / 2 :: real)"
  have p: "0 < exp 1 + (1::real)" by (simp add: add_pos_pos)
  from a p have "2 * exp 1 = exp 1 + (1::real)" by (simp add: field_simps)
  then have "exp (1::real) = 1" by simp
  then show False by simp
qed

lemma att_projected:
  "attention [[0], [0]] [[1], [0]] [[1], [0]] None (Some \<lparr>p = 0, training = False\<rparr>) d
     = Inr ([[1/2], [1/2]], [[1/2, 1/2], [1/2, 1/2]])"
  by (simp add: attention_def scaled_scores_def matmul_nt_def matmul_def bind_err_def dot_def
      dim_col_def softmax_def dropout_forward_def column_def Let_def)

lemma att_raw:
  "attention [[1], [0]] [[1], [0]] [[1], [0]] None (Some \<lparr>p = 0, training = False\<rparr>) d
     = Inr ([[exp 1 / (exp 1 + 1)], [1/2]], [[exp 1 / (exp 1 + 1), 1 / (exp 1 + 1)], [1/2, 1/2]])"
  by (simp add: attention_def scaled_scores_def matmul_nt_def matmul_def bind_err_def dot_def
      dim_col_def softmax_def dropout_forward_def column_def Let_def)

text \<open>
  A block with one head, width 1, the zero projection for the query and identity
  projections otherwise, on the input rows 1 and 0. The call through the instance raises
  \<^verbatim>\<open>TypeError\<close> and returns no output. The call of the plain function, with \<^verbatim>\<open>self\<close> bound
  to the block, stores the uniform weights 1/2 of the projected input and then raises
  \<^verbatim>\<open>AttributeError\<close>; scaled dot-product attention on the same, unprojected input has
  the weight e / (e + 1) at position (0, 0).
\<close>

theorem forward_single_head_counterexample:
  "forward_call
      (Some \<lparr>mha_d_model = 1, mha_h = 1, mha_d_k = 1,
             w_q = \<lparr>in_features = 1, out_features = 1, weight = [[0]], lin_bias = [0]\<rparr>,
             w_k = \<lparr>in_features = 1, out_features = 1, weight = [[1]], lin_bias = [0]\<rparr>,
             w_v = \<lparr>in_features = 1, out_features = 1, weight = [[1]], lin_bias = [0]\<rparr>,
             w_o = \<lparr>in_features = 1, out_features = 1, weight = [[1]], lin_bias = [0]\<rparr>,
             mha_dropout = \<lparr>p = 0, training = False\<rparr>, attention_scores = None\<rparr>)
      (MethodCall
         \<lparr>mha_d_model = 1, mha_h = 1, mha_d_k = 1,
             w_q = \<lparr>in_features = 1, out_features = 1, weight = [[0]], lin_bias = [0]\<rparr>,
             w_k = \<lparr>in_features = 1, out_features = 1, weight = [[1]], lin_bias = [0]\<rparr>,
             w_v = \<lparr>in_features = 1, out_features = 1, weight = [[1]], lin_bias = [0]\<rparr>,
             w_o = \<lparr>in_features = 1, out_features = 1, weight = [[1]], lin_bias = [0]\<rparr>,
             mha_dropout = \<lparr>p = 0, training = False\<rparr>, attention_scores = None\<rparr>
         [[1], [0]] [[1], [0]] [[1], [0]] None)
      (\<lambda>j i c. 0)
    = (Inl TypeError,
       Some \<lparr>mha_d_model = 1, mha_h = 1, mha_d_k = 1,
             w_q = \<lparr>in_features = 1, out_features = 1, weight = [[0]], lin_bias = [0]\<rparr>,
             w_k = \<lparr>in_features = 1, out_features = 1, weight = [[1]], lin_bias = [0]\<rparr>,
             w_v = \<lparr>in_features = 1, out_features = 1, weight = [[1]], lin_bias = [0]\<rparr>,
             w_o = \<lparr>in_features = 1, out_features = 1, weight = [[1]], lin_bias = [0]\<rparr>,
             mha_dropout = \<lparr>p = 0, training = False\<rparr>, attention_scores = None\<rparr>)
   \<and> forward_call
      (Some \<lparr>mha_d_model = 1, mha_h = 1, mha_d_k = 1,
             w_q = \<lparr>in_features = 1, out_features = 1, weight = [[0]], lin_bias = [0]\<rparr>,
             w_k = \<lparr>in_features = 1, out_features = 1, weight = [[1]], lin_bias = [0]\<rparr>,
             w_v = \<lparr>in_features = 1, out_features = 1, weight = [[1]], lin_bias = [0]\<rparr>,
             w_o = \<lparr>in_features = 1, out_features = 1, weight = [[1]], lin_bias = [0]\<rparr>,
             mha_dropout = \<lparr>p = 0, training = False\<rparr>, attention_scores = None\<rparr>)
      (FunctionCall [[1], [0]] [[1], [0]] [[1], [0]] None)
      (\<lambda>j i c. 0)
    = (Inl (AttributeError ''contigous''),
       Some \<lparr>mha_d_model = 1, mha_h = 1, mha_d_k = 1,
             w_q = \<lparr>in_features = 1, out_features = 1, weight = [[0]], lin_bias = [0]\<rparr>,
             w_k = \<lparr>in_features = 1, out_features = 1, weight = [[1]], lin_bias = [0]\<rparr>,
             w_v = \<lparr>in_features = 1, out_features = 1, weight = [[1]], lin_bias = [0]\<rparr>,
             w_o = \<lparr>in_features = 1, out_features = 1, weight = [[1]], lin_bias = [0]\<rparr>,
             mha_dropout = \<lparr>p = 0, training = False\<rparr>,
             attention_scores = Some [[[1/2, 1/2], [1/2, 1/2]]]\<rparr>)
   \<and> attention [[1], [0]] [[1], [0]] [[1], [0]] None (Some \<lparr>p = 0, training = False\<rparr>) (\<lambda>i c. 0)
       = Inr ([[exp 1 / (exp 1 + 1)], [1/2]], [[exp 1 / (exp 1 + 1), 1 / (exp 1 + 1)], [1/2, 1/2]])
   \<and> exp 1 / (exp 1 + 1) \<noteq> (1 / 2 :: real)"
proof -
  let ?B = "\<lparr>mha_d_model = 1, mha_h = 1, mha_d_k = 1,
             w_q = \<lparr>in_features = 1, out_features = 1, weight = [[0]], lin_bias = [0]\<rparr>,
             w_k = \<lparr>in_features = 1, out_features = 1, weight = [[1]], lin_bias = [0]\<rparr>,
             w_v = \<lparr>in_features = 1, out_features = 1, weight = [[1]], lin_bias = [0]\<rparr>,
             w_o = \<lparr>in_features = 1, out_features = 1, weight = [[1]], lin_bias = [0]\<rparr>,
             mha_dropout = \<lparr>p = 0, training = False\<rparr>, attention_scores = None\<rparr>"
  have pq: "linear_forward (w_q ?B) [[1], [0]] = Inr [[0], [0]]"
    and pk: "linear_forward (w_k ?B) [[1], [0]] = Inr [[1], [0]]"
    and pv: "linear_forward (w_v ?B) [[1], [0]] = Inr [[1], [0]]"
    by (simp_all add: linear_forward_def dot_def)
  have vh: "view_heads 1 1 [[0], [0]] = Inr [[[0], [0]]]" "view_heads 1 1 [[1], [0]] = Inr [[[1], [0]]]"
    by (simp_all add: view_heads_def)
  have fh: "forward_heads ?B [[1], [0]] [[1], [0]] [[1], [0]] None (\<lambda>j i c. 0)
              = Inr ([[[1/2], [1/2]]], [[[1/2, 1/2], [1/2, 1/2]]])"
    unfolding forward_heads_def pq pk pv
    by (simp add: bind_err_def vh attention_heads_single att_projected)
  have 1: "forward_call (Some ?B) (MethodCall ?B [[1], [0]] [[1], [0]] [[1], [0]] None) (\<lambda>j i c. 0)
             = (Inl TypeError, Some ?B)"
    by (simp add: forward_call_def bind_positional_def forward_params_def)
  have 2: "forward_call (Some ?B) (FunctionCall [[1], [0]] [[1], [0]] [[1], [0]] None) (\<lambda>j i c. 0)
             = (Inl (AttributeError ''contigous''),
                Some (?B\<lparr>attention_scores := Some [[[1/2, 1/2], [1/2, 1/2]]]\<rparr>))"
    unfolding forward_function_call by (rule forward_body_stores[OF fh])
  show ?thesis
    using 1 2 att_raw[of "\<lambda>i c. 0"] exp_ratio_not_half by simp
qed

text \<open>
  Claim C5, as amended. With one head the split into heads is the identity, and the
  attention step in the body of \<^verbatim>\<open>forward\<close> is one application of scaled dot-product
  attention to the projected query, key and value: when the three projections return and
  their rows have the per-head width, the body leaves in \<^verbatim>\<open>attention_scores\<close> the weight
  matrix of that one application, and leaves the block as it was when the application
  raises.
\<close>

theorem forward_single_head:
  assumes h1: "mha_h blk = 1" and dk: "0 \<le> mha_d_k blk"
    and pq: "linear_forward (w_q blk) q = Inr query"
    and pk: "linear_forward (w_k blk) k = Inr key"
    and pv: "linear_forward (w_v blk) v = Inr val"
    and wq: "list_all (\<lambda>r. int (length r) = mha_d_k blk) query"
    and wk: "list_all (\<lambda>r. int (length r) = mha_d_k blk) key"
    and wv: "list_all (\<lambda>r. int (length r) = mha_d_k blk) val"
  shows "snd (forward_body (Some blk) q k v msk u) =
           (case attention query key val msk (Some (mha_dropout blk)) (u 0) of
              Inl e \<Rightarrow> Some blk
            | Inr (x, w) \<Rightarrow> Some (blk\<lparr>attention_scores := Some [w]\<rparr>))"
proof -
  have fh: "forward_heads blk q k v msk u =
              attention_heads [query] [key] [val] msk (Some (mha_dropout blk)) u"
    by (simp add: forward_heads_def pq pk pv h1 bind_err_def
          view_heads_single[OF dk wq] view_heads_single[OF dk wk] view_heads_single[OF dk wv])
  show ?thesis
  proof (cases "attention query key val msk (Some (mha_dropout blk)) (u 0)")
    case (Inl e)
    then have "forward_heads blk q k v msk u = Inl e"
      by (simp add: fh attention_heads_single)
    then show ?thesis using Inl by (simp add: forward_body_fails)
  next
    case (Inr r)
    obtain x w where r: "r = (x, w)" by (cases r)
    have "forward_heads blk q k v msk u = Inr ([x], [w])"
      using Inr r by (simp add: fh attention_heads_single)
    then show ?thesis using Inr r by (simp add: forward_body_stores)
  qed
qed

theorem forward_single_head_witness:
  "snd (forward_body
      (Some \<lparr>mha_d_model = 1, mha_h = 1, mha_d_k = 1,
             w_q = \<lparr>in_features = 1, out_features = 1, weight = [[0]], lin_bias = [0]\<rparr>,
             w_k = \<lparr>in_features = 1, out_features = 1, weight = [[1]], lin_bias = [0]\<rparr>,
             w_v = \<lparr>in_features = 1, out_features = 1, weight = [[1]], lin_bias = [0]\<rparr>,
             w_o = \<lparr>in_features = 1, out_features = 1, weight = [[1]], lin_bias = [0]\<rparr>,
             mha_dropout = \<lparr>p = 0, training = False\<rparr>, attention_scores = None\<rparr>)
      [[1], [0]] [[1], [0]] [[1], [0]] None (\<lambda>j i c. 0))
    = Some \<lparr>mha_d_model = 1, mha_h = 1, mha_d_k = 1,
             w_q = \<lparr>in_features = 1, out_features = 1, weight = [[0]], lin_bias = [0]\<rparr>,
             w_k = \<lparr>in_features = 1, out_features = 1, weight = [[1]], lin_bias = [0]\<rparr>,
             w_v = \<lparr>in_features = 1, out_features = 1, weight = [[1]], lin_bias = [0]\<rparr>,
             w_o = \<lparr>in_features = 1, out_features = 1, weight = [[1]], lin_bias = [0]\<rparr>,
             mha_dropout = \<lparr>p = 0, training = False\<rparr>,
             attention_scores = Some [[[1/2, 1/2], [1/2, 1/2]]]\<rparr>
   \<and> attention [[0], [0]] [[1], [0]] [[1], [0]] None (Some \<lparr>p = 0, training = False\<rparr>) (\<lambda>i c. 0)
       = Inr ([[1/2], [1/2]], [[1/2, 1/2], [1/2, 1/2]])"
proof -
  let ?B = "\<lparr>mha_d_model = 1, mha_h = 1, mha_d_k = 1,
             w_q = \<lparr>in_features = 1, out_features = 1, weight = [[0]], lin_bias = [0]\<rparr>,
             w_k = \<lparr>in_features = 1, out_features = 1, weight = [[1]], lin_bias = [0]\<rparr>,
             w_v = \<lparr>in_features = 1, out_features = 1, weight = [[1]], lin_bias = [0]\<rparr>,
             w_o = \<lparr>in_features = 1, out_features = 1, weight = [[1]], lin_bias = [0]\<rparr>,
             mha_dropout = \<lparr>p = 0, training = False\<rparr>, attention_scores = None\<rparr>"
  have h1: "mha_h ?B = 1" and dk: "0 \<le> mha_d_k ?B" by simp_all
  have pq: "linear_forward (w_q ?B) [[1], [0]] = Inr [[0], [0]]"
    and pk: "linear_forward (w_k ?B) [[1], [0]] = Inr [[1], [0]]"
    and pv: "linear_forward (w_v ?B) [[1], [0]] = Inr [[1], [0]]"
    by (simp_all add: linear_forward_def dot_def)
  have wq: "list_all (\<lambda>r. int (length r) = mha_d_k ?B) [[0], [0::real]]"
    and wk: "list_all (\<lambda>r. int (length r) = mha_d_k ?B) [[1], [0::real]]"
    by simp_all
  have a: "attention [[0], [0]] [[1], [0]] [[1], [0]] None (Some (mha_dropout ?B)) ((\<lambda>j i c. 0) 0)
             = Inr ([[1/2], [1/2]], [[1/2, 1/2], [1/2, 1/2]])"
    using att_projected[of "\<lambda>i c. 0"] by simp
  from forward_single_head[OF h1 dk pq pk pv wq wk wk, of None "\<lambda>j i c. 0"]
  have "snd (forward_body (Some ?B) [[1], [0]] [[1], [0]] [[1], [0]] None (\<lambda>j i c. 0))
          = Some (?B\<lparr>attention_scores := Some [[[1/2, 1/2], [1/2, 1/2]]]\<rparr>)"
    unfolding a by simp
  then show ?thesis using att_projected[of "\<lambda>i c. 0"] by simp
qed

end
